theory Spec2Isabelle
  imports Complex_Main "HOL-Library.Word" "HOL-Library.Log_Nat" "HOL-Library.Signed_Division"
begin

unbundle bit_operations_syntax

section \<open>Floating-point values of the sensor model\<close>

text \<open>
  A C++ \<open>float\<close> or \<open>double\<close> value is modelled by the rational number it denotes.
  Every arithmetic operation of the source is followed by the rounding of its result type:
  round to nearest, ties to even, to 24 significant bits for \<open>float\<close> and to 53 for
  \<open>double\<close>. The exponent range is not modelled: the magnitudes that occur in
  \<open>Sensor.cpp\<close> (gains below \<open>2^32\<close>, electron counts up to 2000, noise variances)
  are far from overflow and from the subnormal range.
\<close>

definition ilog2 :: "rat \<Rightarrow> int" where
  "ilog2 x = (let (a, b) = quotient_of x;
                  d = bitlen a - bitlen b
              in if 2 powi d \<le> x then d else d - 1)"

definition round_even :: "rat \<Rightarrow> int" where
  "round_even x = (let f = \<lfloor>x\<rfloor>; r = x - of_int f
                   in if r < 1 / 2 then f
                      else if 1 / 2 < r then f + 1
                      else if even f then f else f + 1)"

definition fround :: "nat \<Rightarrow> rat \<Rightarrow> rat" where
  "fround p x = (if x = 0 then 0
                 else let e = ilog2 \<bar>x\<bar>; q = 2 powi (e - int p + 1)
                      in of_int (round_even (x / q)) * q)"

definition f32 :: "rat \<Rightarrow> rat" where
  "f32 x = fround 24 x"

definition f64 :: "rat \<Rightarrow> rat" where
  "f64 x = fround 53 x"

text \<open>Conversion of an unsigned 32-bit integer to \<open>float\<close>.\<close>

definition uint32_to_float :: "32 word \<Rightarrow> rat" where
  "uint32_to_float n = f32 (of_int (uint n))"

text \<open>
  Conversion of a \<open>float\<close> to \<open>uint16_t\<close>: the fraction is discarded (towards zero).
  For a value outside \<open>0..65535\<close> the C++ standard leaves the result open; the model takes
  the low 16 bits of the truncated integer, which is what the conversion through a 32-bit
  integer register gives.
\<close>

definition trunc :: "rat \<Rightarrow> int" where
  "trunc x = (if 0 \<le> x then \<lfloor>x\<rfloor> else \<lceil>x\<rceil>)"

definition float_to_uint16 :: "rat \<Rightarrow> 16 word" where
  "float_to_uint16 x = word_of_int (trunc x)"

subsection \<open>IEEE-754 single precision bit patterns\<close>

text \<open>
  A bit pattern is read as the unsigned number \<open>uint w\<close>: the sign is bit 31, the exponent
  field the eight bits above the 23 bits of the mantissa field. \<open>float_val\<close> decodes a
  pattern, \<open>float_bits\<close> encodes a value that \<open>f32\<close> has rounded. Infinities and NaNs
  (exponent field 255) are not distinguished.
\<close>

definition float_sign :: "32 word \<Rightarrow> bool" where
  "float_sign w = (2 ^ 31 \<le> uint w)"

definition float_exp :: "32 word \<Rightarrow> int" where
  "float_exp w = (uint w div 2 ^ 23) mod 256"

definition float_man :: "32 word \<Rightarrow> int" where
  "float_man w = uint w mod 2 ^ 23"

definition float_val :: "32 word \<Rightarrow> rat" where
  "float_val w = (let s = (if float_sign w then - 1 else 1)
                  in if float_exp w = 0 then s * of_int (float_man w) * 2 powi (- 149)
                     else s * (1 + of_int (float_man w) / 2 ^ 23) * 2 powi (float_exp w - 127))"

definition float_bits :: "rat \<Rightarrow> 32 word" where
  "float_bits x = (if x = 0 then 0
                   else let e = ilog2 \<bar>x\<bar>;
                            m = \<lfloor>(\<bar>x\<bar> / 2 powi e - 1) * 2 ^ 23\<rfloor>
                        in (if x < 0 then 0x80000000 else 0) + word_of_int ((e + 127) * 2 ^ 23 + m))"

section \<open>Constants of \<open>Sensor.cpp\<close>\<close>

definition kResolutionX :: nat where "kResolutionX = 640"
definition kResolutionY :: nat where "kResolutionY = 480"

definition kFrameDurationRange0 :: "64 word" where "kFrameDurationRange0 = 33331760"
definition kFrameDurationRange1 :: "64 word" where "kFrameDurationRange1 = 30000000000"
definition kMinVerticalBlank :: "64 word" where "kMinVerticalBlank = 10000"

definition kMaxRawValue :: "32 word" where "kMaxRawValue = 4000"
definition kBlackLevel :: "32 word" where "kBlackLevel = 1000"
definition kSaturationElectrons :: "32 word" where "kSaturationElectrons = 2000"

definition kBaseGainFactor :: rat where
  "kBaseGainFactor = f32 (uint32_to_float kMaxRawValue / uint32_to_float kSaturationElectrons)"

definition kReadNoiseStddevBeforeGain :: rat where
  "kReadNoiseStddevBeforeGain = f32 (1177 / 1000)"

definition kReadNoiseStddevAfterGain :: rat where
  "kReadNoiseStddevAfterGain = f32 (2100 / 1000)"

definition kReadNoiseVarBeforeGain :: rat where
  "kReadNoiseVarBeforeGain = f32 (kReadNoiseStddevBeforeGain * kReadNoiseStddevBeforeGain)"

definition kReadNoiseVarAfterGain :: rat where
  "kReadNoiseVarAfterGain = f32 (kReadNoiseStddevAfterGain * kReadNoiseStddevAfterGain)"

definition kAvailableSensitivities :: "32 word list" where
  "kAvailableSensitivities = [100, 200, 400, 800, 1600]"

definition kDefaultSensitivity :: "32 word" where "kDefaultSensitivity = 100"

text \<open>\<open>RAND_MAX\<close> of the C library (\<open>2^31 - 1\<close> in bionic and glibc).\<close>

definition RAND_MAX :: int where "RAND_MAX = 2147483647"

section \<open>Approximate square root\<close>

text \<open>
  \<open>sqrtf_approx\<close> works on the bit pattern of its argument: an arithmetic shift right by
  one of the pattern read as \<open>int32_t\<close>, plus the modifier \<open>0x1FBB4000\<close>.
\<close>

definition modifier :: "32 word" where "modifier = 0x1FBB4000"

definition sqrtf_approx :: "32 word \<Rightarrow> 32 word" where
  "sqrtf_approx r = (let r_i = r in signed_drop_bit 1 r_i + modifier)"

section \<open>The value of one pixel (render stage of \<open>Sensor::threadLoop\<close>)\<close>

text \<open>\<open>float totalGain = gain/100.0 * kBaseGainFactor\<close>: a double division, a double
  product, and the rounding to \<open>float\<close> of the assignment.\<close>

definition totalGain :: "32 word \<Rightarrow> rat" where
  "totalGain gain = f32 (f64 (f64 (of_int (uint gain) / 100) * kBaseGainFactor))"

definition noiseVarGain :: "32 word \<Rightarrow> rat" where
  "noiseVarGain gain = f32 (totalGain gain * totalGain gain)"

definition readNoiseVar :: "32 word \<Rightarrow> rat" where
  "readNoiseVar gain = f32 (f32 (kReadNoiseVarBeforeGain * noiseVarGain gain) + kReadNoiseVarAfterGain)"

text \<open>The pixel saturation of the electron count read from the scene.\<close>

definition saturate :: "32 word \<Rightarrow> 32 word" where
  "saturate electronCount =
     (if electronCount < kSaturationElectrons then electronCount else kSaturationElectrons)"

text \<open>\<open>uint16_t rawCount = electronCount * totalGain\<close> and the A/D saturation that follows
  it; \<open>electronCount\<close> is the saturated count.\<close>

definition rawCount_gain :: "32 word \<Rightarrow> 32 word \<Rightarrow> 16 word" where
  "rawCount_gain gain electronCount =
     float_to_uint16 (f32 (uint32_to_float electronCount * totalGain gain))"

definition rawCount_clamp :: "16 word \<Rightarrow> 16 word" where
  "rawCount_clamp rawCount =
     (if (ucast rawCount :: 32 word) < kMaxRawValue then rawCount else ucast kMaxRawValue)"

text \<open>The noise: standard deviation from the approximate square root, a sample drawn
  from \<open>std::rand()\<close>.\<close>

definition noiseStddev :: "32 word \<Rightarrow> 32 word \<Rightarrow> rat" where
  "noiseStddev gain electronCount =
     (let photonNoiseVar = f32 (uint32_to_float electronCount * noiseVarGain gain)
      in float_val (sqrtf_approx (float_bits (f32 (readNoiseVar gain + photonNoiseVar)))))"

definition noiseSample :: "int \<Rightarrow> rat" where
  "noiseSample rnd =
     f32 (f64 (f64 (of_int rnd * f64 (5 / 2 / f64 (1 + of_int RAND_MAX))) - 5 / 4))"

text \<open>
  The sample before the noise term: saturate, apply the gain, clamp, add the black level
  (\<open>rawCount += kBlackLevel\<close>, computed in 32 bits and stored in 16). Then the noise term is
  added in \<open>float\<close> and the sum converted back.
\<close>

definition rawCount_before_noise :: "32 word \<Rightarrow> 32 word \<Rightarrow> 16 word" where
  "rawCount_before_noise gain electrons =
     (let electronCount = saturate electrons;
          rawCount = rawCount_clamp (rawCount_gain gain electronCount)
      in ucast ((ucast rawCount :: 32 word) + kBlackLevel))"

definition pixel_sample :: "32 word \<Rightarrow> 32 word \<Rightarrow> int \<Rightarrow> 16 word" where
  "pixel_sample gain electrons rnd =
     (let electronCount = saturate electrons;
          rawCount = rawCount_before_noise gain electrons
      in float_to_uint16
           (f32 (f32 (of_int (uint rawCount))
                 + f32 (noiseStddev gain electronCount * noiseSample rnd))))"

section \<open>The sensor object and its control surface\<close>

text \<open>
  A buffer pointer is the address it holds, \<open>None\<close> for \<open>NULL\<close>. \<open>nsecs_t\<close> is a signed
  64-bit count of nanoseconds: a 64-bit word, compared with the signed orders.
\<close>

type_synonym buffer = nat
type_synonym nsecs_t = "64 word"

record sensor =
  mGotVSync :: bool
  mExposureTime :: "64 word"
  mFrameDuration :: "64 word"
  mGainFactor :: "32 word"
  mNextBuffer :: "buffer option"
  mNextStride :: "32 word"
  mCapturedBuffer :: "buffer option"
  mCaptureTime :: nsecs_t
  mStartupTime :: nsecs_t
  mNextCaptureTime :: nsecs_t
  mNextCapturedBuffer :: "buffer option"

definition setExposureTime :: "64 word \<Rightarrow> sensor \<Rightarrow> sensor" where
  "setExposureTime ns s = s\<lparr>mExposureTime := ns\<rparr>"

definition setFrameDuration :: "64 word \<Rightarrow> sensor \<Rightarrow> sensor" where
  "setFrameDuration ns s = s\<lparr>mFrameDuration := ns\<rparr>"

definition setSensitivity :: "32 word \<Rightarrow> sensor \<Rightarrow> sensor" where
  "setSensitivity gain s = s\<lparr>mGainFactor := gain\<rparr>"

definition setDestinationBuffer :: "buffer option \<Rightarrow> 32 word \<Rightarrow> sensor \<Rightarrow> sensor" where
  "setDestinationBuffer buf stride s = s\<lparr>mNextBuffer := buf, mNextStride := stride\<rparr>"

text \<open>
  The constructor initialises six members; the others (\<open>mNextStride\<close>, \<open>mCaptureTime\<close>,
  \<open>mStartupTime\<close>, \<open>mNextCaptureTime\<close>, \<open>mNextCapturedBuffer\<close>) keep whatever the
  fresh object \<open>u\<close> holds until \<open>readyToRun\<close> or a setter writes them.
\<close>

definition Sensor_new :: "sensor \<Rightarrow> sensor" where
  "Sensor_new u = u\<lparr>mGotVSync := False,
                      mExposureTime := kFrameDurationRange0 - kMinVerticalBlank,
                      mFrameDuration := kFrameDurationRange0,
                      mGainFactor := kDefaultSensitivity,
                      mNextBuffer := None,
                      mCapturedBuffer := None\<rparr>"

text \<open>\<open>readyToRun\<close> reads the clock once (\<open>now\<close>); \<open>startUp\<close> clears the handoff slot and
  calls it before the thread runs.\<close>

definition readyToRun :: "nsecs_t \<Rightarrow> sensor \<Rightarrow> sensor" where
  "readyToRun now s = s\<lparr>mStartupTime := now, mNextCaptureTime := 0, mNextCapturedBuffer := None\<rparr>"

definition startUp :: "nsecs_t \<Rightarrow> sensor \<Rightarrow> sensor" where
  "startUp now s = readyToRun now (s\<lparr>mCapturedBuffer := None\<rparr>)"

section \<open>Waiting for the vertical sync and for a finished frame\<close>

text \<open>
  \<open>Condition::waitRelative\<close> releases the mutex, blocks, and takes the mutex again before it
  returns a status. The model takes from the environment, for the timeout asked, the status
  returned and what the other threads did to the sensor while the mutex was free.
\<close>

datatype status = OK | TIMED_OUT | FAILED int

type_synonym waiter = "nsecs_t \<Rightarrow> status \<times> (sensor \<Rightarrow> sensor)"

definition waitForVSync :: "waiter \<Rightarrow> nsecs_t \<Rightarrow> sensor \<Rightarrow> bool \<times> sensor" where
  "waitForVSync waitRelative reltime s =
     (let s1 = s\<lparr>mGotVSync := False\<rparr>;
          (res, others) = waitRelative reltime;
          s2 = others s1
      in if res \<noteq> OK \<and> res \<noteq> TIMED_OUT then (False, s2)
         else (mGotVSync s2, s2))"

text \<open>The result of \<open>waitForNewFrame\<close> is its return value together with the value written
  through \<open>captureTime\<close>, \<open>None\<close> when nothing is written.\<close>

definition waitForNewFrame ::
    "waiter \<Rightarrow> nsecs_t \<Rightarrow> sensor \<Rightarrow> (bool \<times> nsecs_t option) \<times> sensor" where
  "waitForNewFrame waitRelative reltime s =
     (if mCapturedBuffer s = None then
        (let (res, others) = waitRelative reltime;
             s1 = others s
         in if res = TIMED_OUT then ((False, None), s1)
            else if res \<noteq> OK \<or> mCapturedBuffer s1 = None then ((False, None), s1)
            else ((True, Some (mCaptureTime s1)), s1\<lparr>mCapturedBuffer := None\<rparr>))
      else ((True, Some (mCaptureTime s)), s\<lparr>mCapturedBuffer := None\<rparr>))"

section \<open>The capture loop\<close>

text \<open>
  What one call of \<open>threadLoop\<close> takes from outside: the readings of \<open>systemTime()\<close> (at
  the start of the iteration, at the readout check after row \<open>y\<close>, and when the work is
  done), the time left that \<open>nanosleep\<close> reports each time it is interrupted, the electron
  counts of the scene (for the exposure and the capture time set, at pixel \<open>x\<close>, \<open>y\<close> and
  a colour channel) and the values of \<open>std::rand()\<close>.
\<close>

record env =
  systemTime_start :: nsecs_t
  systemTime_row :: "nat \<Rightarrow> nsecs_t"
  systemTime_workDone :: nsecs_t
  nanosleep_remaining :: "(64 word \<times> 64 word) list"
  scene_getPixelElectrons :: "64 word \<Rightarrow> nsecs_t \<Rightarrow> nat \<Rightarrow> nat \<Rightarrow> nat \<Rightarrow> 32 word"
  std_rand :: "nat \<Rightarrow> nat \<Rightarrow> int"

text \<open>What one call does that others can see, in order.\<close>

datatype event =
    VSyncSignal
  | WriteRow buffer "32 word" "16 word list"
  | ReadoutComplete buffer nsecs_t
  | Nanosleep "64 word" "64 word"

definition kRowReadoutTime :: nsecs_t where
  "kRowReadoutTime = word_of_int (sint kFrameDurationRange0 sdiv int kResolutionY)"

text \<open>Stage 1, under the control mutex: the control parameters are read by the caller of
  this function from the state before; the buffer is taken and the vertical sync signalled.\<close>

definition latch :: "sensor \<Rightarrow> sensor" where
  "latch s = s\<lparr>mNextBuffer := None, mGotVSync := True\<rparr>"

text \<open>The local variables of the render loop that change, with the sensor and the events.\<close>

record render_state =
  rs_sensor :: sensor
  rs_capturedBuffer :: "buffer option"
  rs_simulatedTime :: nsecs_t
  rs_trace :: "event list"

text \<open>The block under the readout mutex, the same text at both places of the source.\<close>

definition signal_readout :: "nsecs_t \<Rightarrow> render_state \<Rightarrow> render_state" where
  "signal_readout captureTime st =
     (case rs_capturedBuffer st of
        None \<Rightarrow> st
      | Some cb \<Rightarrow>
          st\<lparr>rs_sensor := (rs_sensor st)\<lparr>mCapturedBuffer := Some cb, mCaptureTime := captureTime\<rparr>,
             rs_trace := rs_trace st @ [ReadoutComplete cb captureTime],
             rs_capturedBuffer := None\<rparr>)"

definition bayerSelect :: "nat \<Rightarrow> nat \<Rightarrow> nat" where
  "bayerSelect x y = (y AND 1) * 2 + (x AND 1)"

definition render_row :: "env \<Rightarrow> 64 word \<Rightarrow> 32 word \<Rightarrow> nsecs_t \<Rightarrow> nat \<Rightarrow> 16 word list" where
  "render_row env exposureDuration gain sceneTime y =
     map (\<lambda>x. pixel_sample gain
                 (scene_getPixelElectrons env exposureDuration sceneTime x y (bayerSelect x y))
                 (std_rand env x y))
         [0..<kResolutionX]"

definition row_step ::
    "env \<Rightarrow> 64 word \<Rightarrow> 32 word \<Rightarrow> 32 word \<Rightarrow> buffer \<Rightarrow> nsecs_t \<Rightarrow> nsecs_t
     \<Rightarrow> render_state \<Rightarrow> nat \<Rightarrow> render_state" where
  "row_step env exposureDuration gain stride dest captureTime frameReadoutEndRealTime st y =
     (let st1 = st\<lparr>rs_trace := rs_trace st
                      @ [WriteRow dest (of_nat y * stride)
                           (render_row env exposureDuration gain
                              (mNextCaptureTime (rs_sensor st)) y)],
                    rs_simulatedTime := rs_simulatedTime st + kRowReadoutTime\<rparr>
      in if rs_capturedBuffer st1 \<noteq> None \<and> y AND 63 = 0
            \<and> frameReadoutEndRealTime \<le>s systemTime_row env y
         then signal_readout captureTime st1
         else st1)"

text \<open>Stage 2, the rows of the new image, entered only with a destination buffer.\<close>

definition render ::
    "env \<Rightarrow> 64 word \<Rightarrow> 32 word \<Rightarrow> 32 word \<Rightarrow> nsecs_t \<Rightarrow> nsecs_t \<Rightarrow> buffer option
     \<Rightarrow> render_state \<Rightarrow> render_state" where
  "render env exposureDuration gain stride captureTime frameReadoutEndRealTime dest st0 =
     (case dest of
        None \<Rightarrow> st0
      | Some d \<Rightarrow>
          foldl (row_step env exposureDuration gain stride d captureTime frameReadoutEndRealTime)
            st0 [0..<kResolutionY])"

text \<open>The pacing stage: \<open>nanosleep\<close> is called again with the time left as long as it
  returns non-zero; the environment lists the time left at each interruption.\<close>

fun nanosleep_loop :: "64 word \<times> 64 word \<Rightarrow> (64 word \<times> 64 word) list \<Rightarrow> event list" where
  "nanosleep_loop t [] = [Nanosleep (fst t) (snd t)]"
| "nanosleep_loop t (r # rs) = Nanosleep (fst t) (snd t) # nanosleep_loop r rs"

definition pacing :: "env \<Rightarrow> nsecs_t \<Rightarrow> event list" where
  "pacing env frameEndRealTime =
     (let workDoneRealTime = systemTime_workDone env;
          timeAccuracy = 2000000
      in if workDoneRealTime <s frameEndRealTime - timeAccuracy
         then nanosleep_loop
                (word_of_int (sint (frameEndRealTime - workDoneRealTime) sdiv 1000000000),
                 word_of_int (sint (frameEndRealTime - workDoneRealTime) smod 1000000000))
                (nanosleep_remaining env)
         else [])"

definition threadLoop :: "env \<Rightarrow> sensor \<Rightarrow> bool \<times> sensor \<times> event list" where
  "threadLoop env s =
     (let exposureDuration = mExposureTime s;
          frameDuration = mFrameDuration s;
          gain = mGainFactor s;
          nextBuffer = mNextBuffer s;
          stride = mNextStride s;
          s1 = latch s;
          startRealTime = systemTime_start env;
          simulatedTime = startRealTime - mStartupTime s1;
          frameEndRealTime = startRealTime + frameDuration;
          frameReadoutEndRealTime = startRealTime + kRowReadoutTime * of_nat kResolutionY;
          capturedBuffer = mNextCapturedBuffer s1;
          captureTime = (if mNextCapturedBuffer s1 \<noteq> None then mNextCaptureTime s1 else 0);
          simulatedTime = simulatedTime + (kRowReadoutTime + kMinVerticalBlank);
          s2 = s1\<lparr>mNextCaptureTime := simulatedTime, mNextCapturedBuffer := nextBuffer\<rparr>;
          st0 = \<lparr>rs_sensor = s2, rs_capturedBuffer = capturedBuffer,
                 rs_simulatedTime = simulatedTime, rs_trace = [VSyncSignal]\<rparr>;
          st1 = render env exposureDuration gain stride captureTime frameReadoutEndRealTime
                  (mNextCapturedBuffer s2) st0;
          st2 = signal_readout captureTime st1
      in (True, rs_sensor st2, rs_trace st2 @ pacing env frameEndRealTime))"

text \<open>The events of a trace by kind.\<close>

fun written :: "event list \<Rightarrow> buffer list" where
  "written [] = []"
| "written (WriteRow b off px # es) = b # written es"
| "written (e # es) = written es"

fun published :: "event list \<Rightarrow> (buffer \<times> nsecs_t) list" where
  "published [] = []"
| "published (ReadoutComplete b t # es) = (b, t) # published es"
| "published (e # es) = published es"

fun slept :: "event list \<Rightarrow> (64 word \<times> 64 word) list" where
  "slept [] = []"
| "slept (Nanosleep a b # es) = (a, b) # slept es"
| "slept (e # es) = slept es"

section \<open>Notions for the proofs\<close>

text \<open>The sensor and the events that one iteration leaves.\<close>

definition sensor_after :: "env \<Rightarrow> sensor \<Rightarrow> sensor" where
  "sensor_after env s = fst (snd (threadLoop env s))"

definition trace_of :: "env \<Rightarrow> sensor \<Rightarrow> event list" where
  "trace_of env s = snd (snd (threadLoop env s))"

text \<open>
  \<open>slot_after\<close> is the content the handoff slot will have once the pending readout is
  signalled; \<open>owed\<close> lists the frames published so far and the one still pending;
  \<open>controls\<close> forgets the handoff slot; \<open>vsync_first\<close> says that the vertical sync is the
  first event and the only one of its kind.
\<close>

definition slot_after :: "nsecs_t \<Rightarrow> render_state \<Rightarrow> buffer option \<times> nsecs_t" where
  "slot_after t st = (case rs_capturedBuffer st of
       None \<Rightarrow> (mCapturedBuffer (rs_sensor st), mCaptureTime (rs_sensor st))
     | Some cb \<Rightarrow> (Some cb, t))"

definition owed :: "nsecs_t \<Rightarrow> render_state \<Rightarrow> (buffer \<times> nsecs_t) list" where
  "owed t st = published (rs_trace st)
      @ (case rs_capturedBuffer st of None \<Rightarrow> [] | Some cb \<Rightarrow> [(cb, t)])"

definition controls :: "sensor \<Rightarrow> sensor" where
  "controls s = s\<lparr>mCapturedBuffer := None, mCaptureTime := 0\<rparr>"

definition vsync_first :: "event list \<Rightarrow> bool" where
  "vsync_first tr = (\<exists>rest. tr = VSyncSignal # rest \<and> VSyncSignal \<notin> set rest)"

section \<open>A sensor and a clock for the examples\<close>

text \<open>
  \<open>example_sensor\<close> is a sensor after construction and \<open>startUp\<close> at time 0, whose
  members the constructor leaves unset are zero; \<open>example_env start finish\<close> is an
  iteration that starts at \<open>start\<close>, reads \<open>finish\<close> at every later look at the clock, and
  whose sleep is not interrupted.
\<close>

definition example_sensor :: sensor where
  "example_sensor =
     startUp 0 (Sensor_new \<lparr>mGotVSync = False, mExposureTime = 0, mFrameDuration = 0,
                  mGainFactor = 0, mNextBuffer = None, mNextStride = 0,
                  mCapturedBuffer = None, mCaptureTime = 0, mStartupTime = 0,
                  mNextCaptureTime = 0, mNextCapturedBuffer = None\<rparr>)"

definition example_env :: "nsecs_t \<Rightarrow> nsecs_t \<Rightarrow> env" where
  "example_env start finish =
     \<lparr>systemTime_start = start, systemTime_row = (\<lambda>y. finish),
      systemTime_workDone = finish, nanosleep_remaining = [],
      scene_getPixelElectrons = (\<lambda>ex t x y c. 1500), std_rand = (\<lambda>x y. 0)\<rparr>"

section \<open>Evaluation of the gain factors\<close>

lemma fround_24_small: "fround 24 2 = 2" "fround 24 4 = 4" "fround 24 2000 = 2000"
  "fround 24 4000 = 4000" "fround 24 1500 = 1500" "fround 24 6000 = 6000"
  by code_simp+

lemma fround_53_small: "fround 53 2 = 2" "fround 53 4 = 4"
  by code_simp+

lemma kBaseGainFactor_eq: "kBaseGainFactor = 2"
  by (simp add: kBaseGainFactor_def uint32_to_float_def kMaxRawValue_def
      kSaturationElectrons_def f32_def fround_24_small)

lemma totalGain_200: "totalGain 200 = 4"
  by (simp add: totalGain_def kBaseGainFactor_eq f32_def f64_def fround_24_small fround_53_small)

lemma fround_24_more: "fround 24 8 = 8" "fround 24 16 = 16" "fround 24 32 = 32"
  "fround 24 66 = 66" "fround 24 1 = 1" "fround 24 8000 = 8000" "fround 24 16000 = 16000"
  "fround 24 32000 = 32000" "fround 24 64000 = 64000" "fround 24 132000 = 132000"
  by code_simp+

lemma fround_53_more: "fround 53 1 = 1" "fround 53 8 = 8" "fround 53 16 = 16"
  "fround 53 32 = 32" "fround 53 33 = 33" "fround 53 66 = 66"
  by code_simp+

lemmas fround_evals = fround_24_small fround_24_more fround_53_small fround_53_more

lemma totalGain_supported:
  "totalGain 100 = 2" "totalGain 400 = 8" "totalGain 800 = 16" "totalGain 1600 = 32"
  by (simp_all add: totalGain_def kBaseGainFactor_eq f32_def f64_def fround_evals)

lemma fround_half: "fround 53 (1 / 2) = 1 / 2"
  by code_simp

lemma totalGain_50: "totalGain 50 = 1"
proof -
  have "(50::rat) / 100 = 1 / 2" by simp
  then show ?thesis
    by (simp add: totalGain_def kBaseGainFactor_eq f32_def f64_def fround_half fround_evals
        del: divide_divide_eq_left)
qed

lemma totalGain_3300: "totalGain 3300 = 66"
  by (simp add: totalGain_def kBaseGainFactor_eq f32_def f64_def fround_evals)

lemma saturate_above: "kSaturationElectrons \<le> electrons \<Longrightarrow> saturate electrons = 2000"
  by (auto simp add: saturate_def kSaturationElectrons_def)

lemma uint32_to_float_2000: "uint32_to_float 2000 = 2000"
  by (simp add: uint32_to_float_def f32_def fround_evals)

lemma uint32_to_float_1500: "uint32_to_float 1500 = 1500"
  by (simp add: uint32_to_float_def f32_def fround_evals)

lemma rawCount_gain_200_1500: "rawCount_gain 200 1500 = 6000"
  by (simp add: rawCount_gain_def uint32_to_float_1500 totalGain_200 f32_def fround_evals
      float_to_uint16_def trunc_def)

lemma rawCount_gain_saturated:
  "rawCount_gain 100 2000 = 4000" "rawCount_gain 200 2000 = 8000"
  "rawCount_gain 400 2000 = 16000" "rawCount_gain 800 2000 = 32000"
  "rawCount_gain 1600 2000 = 64000"
  by (simp_all add: rawCount_gain_def uint32_to_float_2000 totalGain_200 totalGain_supported
      f32_def fround_evals float_to_uint16_def trunc_def)

lemma rawCount_gain_3300: "rawCount_gain 3300 2000 = 928"
  by (simp add: rawCount_gain_def uint32_to_float_2000 totalGain_3300
      f32_def fround_evals float_to_uint16_def trunc_def)

section \<open>Pixel value formula\<close>

text \<open>
  C1 (as the code has it). With gain 200 the total gain is \<open>2 * kBaseGainFactor = 4\<close>. For an
  electron count of 1500 the product \<open>min(1500, 2000) * totalGain = 6000\<close> is clamped to
  \<open>kMaxRawValue = 4000\<close> first and the black level is added after the clamp, so the sample
  before the noise term is \<open>4000 + 1000 = 5000\<close>.
\<close>

theorem pixel_value_formula:
  "totalGain 200 = 2 * kBaseGainFactor
   \<and> uint (rawCount_before_noise 200 1500)
       = min (trunc (of_int (min 1500 (uint kSaturationElectrons)) * totalGain 200))
             (uint kMaxRawValue) + uint kBlackLevel
   \<and> rawCount_before_noise 200 1500 = 5000"
  by (simp add: totalGain_200 kBaseGainFactor_eq rawCount_before_noise_def saturate_def
      rawCount_clamp_def rawCount_gain_200_1500 kSaturationElectrons_def kMaxRawValue_def
      kBlackLevel_def trunc_def)

text \<open>
  C1 as the claim words it, the sum \<open>min(1500, 2000) * totalGain + blackLevel\<close> clamped to
  \<open>maxRawValue\<close>, would be 4000; the code gives 5000.
\<close>

theorem pixel_value_formula_counterexample:
  "uint (rawCount_before_noise 200 1500)
   \<noteq> min (trunc (of_int (min 1500 (uint kSaturationElectrons)) * totalGain 200)
            + uint kBlackLevel)
         (uint kMaxRawValue)"
  by (simp add: totalGain_200 rawCount_before_noise_def saturate_def
      rawCount_clamp_def rawCount_gain_200_1500 kSaturationElectrons_def kMaxRawValue_def
      kBlackLevel_def trunc_def)

section \<open>Saturation clamp\<close>

lemma before_noise_saturated:
  assumes "kSaturationElectrons \<le> electrons"
  shows "rawCount_before_noise gain electrons
         = ucast ((ucast (rawCount_clamp (rawCount_gain gain 2000)) :: 32 word) + kBlackLevel)"
  using saturate_above [OF assms] by (simp add: rawCount_before_noise_def)

text \<open>
  C4 (as the code has it). For every electron count at or above \<open>kSaturationElectrons\<close>, however
  far, and each of the five supported sensitivities, the raw count after the A/D clamp is
  exactly \<open>kMaxRawValue = 4000\<close>, and the sample before the noise term is that clamp plus
  the black level, \<open>5000\<close>.
\<close>

theorem saturation_clamp:
  assumes "kSaturationElectrons \<le> electrons" and "gain \<in> set kAvailableSensitivities"
  shows "rawCount_clamp (rawCount_gain gain (saturate electrons)) = ucast kMaxRawValue
         \<and> uint (rawCount_before_noise gain electrons) = uint kMaxRawValue + uint kBlackLevel"
proof -
  have sat: "saturate electrons = 2000"
    using assms(1) by (rule saturate_above)
  have clamp: "rawCount_clamp (rawCount_gain gain 2000) = 4000"
    using assms(2)
    by (auto simp add: kAvailableSensitivities_def rawCount_gain_saturated rawCount_clamp_def
        kMaxRawValue_def)
  show ?thesis
    by (simp add: before_noise_saturated [OF assms(1)] sat clamp kMaxRawValue_def kBlackLevel_def)
qed

theorem saturation_clamp_witness:
  "kSaturationElectrons \<le> 1000000 \<and> 1600 \<in> set kAvailableSensitivities
   \<and> rawCount_clamp (rawCount_gain 1600 (saturate 1000000)) = ucast kMaxRawValue
   \<and> uint (rawCount_before_noise 1600 1000000) = uint kMaxRawValue + uint kBlackLevel"
proof -
  have a: "kSaturationElectrons \<le> 1000000"
    by (simp add: kSaturationElectrons_def)
  have b: "(1600::32 word) \<in> set kAvailableSensitivities"
    by (simp add: kAvailableSensitivities_def)
  show ?thesis
    using a b saturation_clamp [OF a b] by simp
qed

text \<open>
  C4 as the claim words it fails at the default sensitivity: the value before the noise
  term is 5000, larger than \<open>kMaxRawValue\<close>.
\<close>

theorem saturation_clamp_counterexample:
  "rawCount_before_noise 100 1000000 \<noteq> ucast kMaxRawValue
   \<and> uint kMaxRawValue < uint (rawCount_before_noise 100 1000000)"
proof -
  have "kSaturationElectrons \<le> 1000000"
    by (simp add: kSaturationElectrons_def)
  then have "rawCount_before_noise 100 1000000 = 5000"
    by (simp add: before_noise_saturated rawCount_gain_saturated rawCount_clamp_def
        kMaxRawValue_def kBlackLevel_def)
  then show ?thesis
    by (simp add: kMaxRawValue_def)
qed

text \<open>Below the base sensitivity a saturated pixel does not reach the clamp at all.\<close>

lemma saturation_gain_50: "rawCount_before_noise 50 1000000 = 3000"
proof -
  have "kSaturationElectrons \<le> 1000000"
    by (simp add: kSaturationElectrons_def)
  moreover have "rawCount_gain 50 2000 = 2000"
    by (simp add: rawCount_gain_def uint32_to_float_2000 totalGain_50
        f32_def fround_evals float_to_uint16_def trunc_def)
  ultimately show ?thesis
    by (simp add: before_noise_saturated rawCount_clamp_def kMaxRawValue_def kBlackLevel_def)
qed

section \<open>Unvalidated sensitivity\<close>

text \<open>
  C10. \<open>setSensitivity\<close> stores any 32-bit gain. For the gain 3300, which is none of the
  supported sensitivities, the total gain is 66 and a saturated pixel gives the product
  \<open>2000 * 66 = 132000\<close>, beyond the range of \<open>uint16_t\<close>; the conversion leaves
  \<open>132000 mod 65536 = 928\<close>, below \<open>kMaxRawValue\<close>, so the clamp leaves it as it is and
  the sample before the noise term is 1928.
\<close>

theorem unvalidated_gain_wraps:
  "(\<forall>gain s. mGainFactor (setSensitivity gain s) = gain)
   \<and> (\<exists>gain electrons.
        gain \<notin> set kAvailableSensitivities
        \<and> kSaturationElectrons \<le> electrons
        \<and> saturate electrons = kSaturationElectrons
        \<and> 65536 \<le> f32 (uint32_to_float (saturate electrons) * totalGain gain)
        \<and> uint (rawCount_gain gain (saturate electrons))
            = trunc (f32 (uint32_to_float (saturate electrons) * totalGain gain)) mod 65536
        \<and> (ucast (rawCount_gain gain (saturate electrons)) :: 32 word) < kMaxRawValue
        \<and> rawCount_clamp (rawCount_gain gain (saturate electrons))
            = rawCount_gain gain (saturate electrons)
        \<and> rawCount_before_noise gain electrons = 1928)"
proof -
  have set: "\<forall>gain s. mGainFactor (setSensitivity gain s) = gain"
    by (simp add: setSensitivity_def)
  have sat: "kSaturationElectrons \<le> 2000" "saturate 2000 = kSaturationElectrons"
    by (simp_all add: saturate_def kSaturationElectrons_def)
  have prod: "f32 (uint32_to_float 2000 * totalGain 3300) = 132000"
    by (simp add: uint32_to_float_2000 totalGain_3300 f32_def fround_evals)
  have "(3300::32 word) \<notin> set kAvailableSensitivities
        \<and> kSaturationElectrons \<le> 2000
        \<and> saturate 2000 = kSaturationElectrons
        \<and> 65536 \<le> f32 (uint32_to_float (saturate 2000) * totalGain 3300)
        \<and> uint (rawCount_gain 3300 (saturate 2000))
            = trunc (f32 (uint32_to_float (saturate 2000) * totalGain 3300)) mod 65536
        \<and> (ucast (rawCount_gain 3300 (saturate 2000)) :: 32 word) < kMaxRawValue
        \<and> rawCount_clamp (rawCount_gain 3300 (saturate 2000))
            = rawCount_gain 3300 (saturate 2000)
        \<and> rawCount_before_noise 3300 2000 = 1928"
    using sat
    by (simp add: before_noise_saturated kSaturationElectrons_def prod rawCount_gain_3300
        rawCount_clamp_def kMaxRawValue_def kBlackLevel_def kAvailableSensitivities_def
        trunc_def)
  then show ?thesis
    using set by blast
qed

section \<open>The events and the state of one iteration\<close>

lemma written_append: "written (xs @ ys) = written xs @ written ys"
  by (induction xs rule: written.induct) simp_all

lemma published_append: "published (xs @ ys) = published xs @ published ys"
  by (induction xs rule: published.induct) simp_all

lemma slept_append: "slept (xs @ ys) = slept xs @ slept ys"
  by (induction xs rule: slept.induct) simp_all

lemma foldl_const:
  assumes "\<And>st y. g (f st y) = g st"
  shows "g (foldl f st ys) = g st"
  using assms by (induction ys arbitrary: st) simp_all

lemma foldl_invariant:
  assumes "P st" and "\<And>st y. P st \<Longrightarrow> P (f st y)"
  shows "P (foldl f st ys)"
  using assms by (induction ys arbitrary: st) simp_all

lemma nanosleep_loop_slept: "slept (nanosleep_loop t rs) = t # rs"
  by (induction rs arbitrary: t) simp_all

lemma nanosleep_loop_written: "written (nanosleep_loop t rs) = []"
  by (induction rs arbitrary: t) simp_all

lemma nanosleep_loop_published: "published (nanosleep_loop t rs) = []"
  by (induction rs arbitrary: t) simp_all

lemma nanosleep_loop_no_vsync: "VSyncSignal \<notin> set (nanosleep_loop t rs)"
  by (induction rs arbitrary: t) simp_all

lemma pacing_written: "written (pacing env fe) = []"
  by (simp add: pacing_def Let_def nanosleep_loop_written)

lemma pacing_published: "published (pacing env fe) = []"
  by (simp add: pacing_def Let_def nanosleep_loop_published)

lemma pacing_no_vsync: "VSyncSignal \<notin> set (pacing env fe)"
  by (simp add: pacing_def Let_def nanosleep_loop_no_vsync)

lemma signal_readout_slot: "slot_after t (signal_readout t st) = slot_after t st"
  by (simp add: slot_after_def signal_readout_def split: option.splits)

lemma signal_readout_owed: "owed t (signal_readout t st) = owed t st"
  by (simp add: owed_def signal_readout_def published_append split: option.splits)

lemma signal_readout_controls: "controls (rs_sensor (signal_readout t st)) = controls (rs_sensor st)"
  by (simp add: controls_def signal_readout_def split: option.splits)

lemma signal_readout_written: "written (rs_trace (signal_readout t st)) = written (rs_trace st)"
  by (simp add: signal_readout_def written_append split: option.splits)

lemma signal_readout_slept: "slept (rs_trace (signal_readout t st)) = slept (rs_trace st)"
  by (simp add: signal_readout_def slept_append split: option.splits)

lemma signal_readout_done: "rs_capturedBuffer (signal_readout t st) = None"
  by (simp add: signal_readout_def split: option.splits)

lemma signal_readout_vsync:
  "rs_trace st = VSyncSignal # rest \<and> VSyncSignal \<notin> set rest \<Longrightarrow>
   \<exists>rest'. rs_trace (signal_readout t st) = VSyncSignal # rest' \<and> VSyncSignal \<notin> set rest'"
  by (auto simp add: signal_readout_def split: option.splits)

lemma row_step_slot: "slot_after t (row_step env ex g sd d t fr st y) = slot_after t st"
  by (simp add: row_step_def Let_def signal_readout_slot) (simp add: slot_after_def split: option.splits)

lemma row_step_owed: "owed t (row_step env ex g sd d t fr st y) = owed t st"
  by (simp add: row_step_def Let_def signal_readout_owed) (simp add: owed_def published_append split: option.splits)

lemma row_step_controls:
  "controls (rs_sensor (row_step env ex g sd d t fr st y)) = controls (rs_sensor st)"
  by (simp add: row_step_def Let_def signal_readout_controls)

lemma row_step_written:
  "written (rs_trace (row_step env ex g sd d t fr st y)) = written (rs_trace st) @ [d]"
  by (simp add: row_step_def Let_def signal_readout_written written_append)

lemma row_step_slept:
  "slept (rs_trace (row_step env ex g sd d t fr st y)) = slept (rs_trace st)"
  by (simp add: row_step_def Let_def signal_readout_slept slept_append)

lemma controls_eqD:
  "controls a = controls b \<Longrightarrow> a = b\<lparr>mCapturedBuffer := mCapturedBuffer a, mCaptureTime := mCaptureTime a\<rparr>"
  by (cases a, cases b) (simp add: controls_def)

lemma render_slot: "slot_after t (render env ex g sd t fr d st0) = slot_after t st0"
  unfolding render_def
  by (cases d) (simp_all add: foldl_const [where g = "slot_after t"] row_step_slot)

lemma render_owed: "owed t (render env ex g sd t fr d st0) = owed t st0"
  unfolding render_def
  by (cases d) (simp_all add: foldl_const [where g = "owed t"] row_step_owed)

lemma render_controls:
  "controls (rs_sensor (render env ex g sd t fr d st0)) = controls (rs_sensor st0)"
  unfolding render_def
  by (cases d)
     (simp_all add: foldl_const [where g = "\<lambda>st. controls (rs_sensor st)"] row_step_controls)

lemma render_slept: "slept (rs_trace (render env ex g sd t fr d st0)) = slept (rs_trace st0)"
  unfolding render_def
  by (cases d)
     (simp_all add: foldl_const [where g = "\<lambda>st. slept (rs_trace st)"] row_step_slept)

lemma foldl_row_step_written:
  "written (rs_trace (foldl (row_step env ex g sd dest t fr) st ys))
   = written (rs_trace st) @ replicate (length ys) dest"
proof (induction ys arbitrary: st)
  case Nil
  then show ?case by simp
next
  case (Cons y ys)
  show ?case
    by (simp add: Cons.IH row_step_written replicate_app_Cons_same)
qed

lemma render_written:
  "written (rs_trace (render env ex g sd t fr d st0))
   = written (rs_trace st0) @ (case d of None \<Rightarrow> [] | Some dest \<Rightarrow> replicate kResolutionY dest)"
  unfolding render_def
  by (cases d) (simp_all add: foldl_row_step_written)

lemma vsync_first_append:
  "vsync_first tr \<Longrightarrow> VSyncSignal \<notin> set es \<Longrightarrow> vsync_first (tr @ es)"
  by (auto simp add: vsync_first_def)

lemma signal_readout_vsync_first:
  "vsync_first (rs_trace st) \<Longrightarrow> vsync_first (rs_trace (signal_readout t st))"
  by (auto simp add: signal_readout_def vsync_first_append split: option.splits)

lemma row_step_vsync_first:
  "vsync_first (rs_trace st) \<Longrightarrow> vsync_first (rs_trace (row_step env ex g sd d t fr st y))"
  by (simp add: row_step_def Let_def signal_readout_vsync_first vsync_first_append)

lemma render_vsync_first:
  "vsync_first (rs_trace st0) \<Longrightarrow> vsync_first (rs_trace (render env ex g sd t fr d st0))"
  unfolding render_def
  by (cases d)
     (simp_all add: foldl_invariant [where P = "\<lambda>st. vsync_first (rs_trace st)"]
        row_step_vsync_first)

lemma threadLoop_sensor:
  "sensor_after env s =
     s\<lparr>mNextBuffer := None, mGotVSync := True,
       mNextCaptureTime := systemTime_start env - mStartupTime s + (kRowReadoutTime + kMinVerticalBlank),
       mNextCapturedBuffer := mNextBuffer s,
       mCapturedBuffer := (case mNextCapturedBuffer s of None \<Rightarrow> mCapturedBuffer s | Some c \<Rightarrow> Some c),
       mCaptureTime := (case mNextCapturedBuffer s of None \<Rightarrow> mCaptureTime s | Some c \<Rightarrow> mNextCaptureTime s)\<rparr>"
  (is "?s' = ?rhs")
proof -
  let ?t = "if mNextCapturedBuffer s \<noteq> None then mNextCaptureTime s else 0"
  let ?sim = "systemTime_start env - mStartupTime s + (kRowReadoutTime + kMinVerticalBlank)"
  let ?s2 = "(latch s)\<lparr>mNextCaptureTime := ?sim, mNextCapturedBuffer := mNextBuffer s\<rparr>"
  let ?st0 = "\<lparr>rs_sensor = ?s2, rs_capturedBuffer = mNextCapturedBuffer s,
                 rs_simulatedTime = ?sim, rs_trace = [VSyncSignal]\<rparr>"
  let ?st2 = "signal_readout ?t
                  (render env (mExposureTime s) (mGainFactor s) (mNextStride s) ?t
                     (systemTime_start env + kRowReadoutTime * of_nat kResolutionY)
                     (mNextBuffer s) ?st0)"
  have eq: "?s' = rs_sensor ?st2"
    by (simp add: sensor_after_def threadLoop_def Let_def latch_def)
  have c: "controls (rs_sensor ?st2) = controls ?s2"
    by (simp add: signal_readout_controls render_controls)
  have sl: "slot_after ?t ?st2 = slot_after ?t ?st0"
    by (simp only: signal_readout_slot render_slot)
  have d: "rs_capturedBuffer ?st2 = None"
    by (rule signal_readout_done)
  from sl d have slot: "(mCapturedBuffer (rs_sensor ?st2), mCaptureTime (rs_sensor ?st2))
      = (case mNextCapturedBuffer s of None \<Rightarrow> (mCapturedBuffer s, mCaptureTime s)
         | Some c \<Rightarrow> (Some c, mNextCaptureTime s))"
    by (simp add: slot_after_def latch_def split: option.splits)
  from controls_eqD [OF c] slot show ?thesis
    unfolding eq by (simp add: latch_def split: option.splits)
qed

lemma threadLoop_trace_parts:
  "written (trace_of env s)
     = (case mNextBuffer s of None \<Rightarrow> [] | Some b \<Rightarrow> replicate kResolutionY b)"
  "published (trace_of env s)
     = (case mNextCapturedBuffer s of None \<Rightarrow> [] | Some c \<Rightarrow> [(c, mNextCaptureTime s)])"
  "slept (trace_of env s)
     = slept (pacing env (systemTime_start env + mFrameDuration s))"
  "vsync_first (trace_of env s)"
proof -
  let ?t = "if mNextCapturedBuffer s \<noteq> None then mNextCaptureTime s else 0"
  let ?sim = "systemTime_start env - mStartupTime s + (kRowReadoutTime + kMinVerticalBlank)"
  let ?s2 = "(latch s)\<lparr>mNextCaptureTime := ?sim, mNextCapturedBuffer := mNextBuffer s\<rparr>"
  let ?st0 = "\<lparr>rs_sensor = ?s2, rs_capturedBuffer = mNextCapturedBuffer s,
                 rs_simulatedTime = ?sim, rs_trace = [VSyncSignal]\<rparr>"
  let ?st2 = "signal_readout ?t
                  (render env (mExposureTime s) (mGainFactor s) (mNextStride s) ?t
                     (systemTime_start env + kRowReadoutTime * of_nat kResolutionY)
                     (mNextBuffer s) ?st0)"
  let ?p = "pacing env (systemTime_start env + mFrameDuration s)"
  have eq: "trace_of env s = rs_trace ?st2 @ ?p"
    by (simp add: trace_of_def threadLoop_def Let_def latch_def)
  show "written (trace_of env s)
     = (case mNextBuffer s of None \<Rightarrow> [] | Some b \<Rightarrow> replicate kResolutionY b)"
    unfolding eq
    by (simp add: written_append pacing_written signal_readout_written render_written)
  have ow: "owed ?t ?st2 = owed ?t ?st0"
    by (simp only: signal_readout_owed render_owed)
  have d: "rs_capturedBuffer ?st2 = None"
    by (rule signal_readout_done)
  from ow d have "published (rs_trace ?st2)
     = (case mNextCapturedBuffer s of None \<Rightarrow> [] | Some c \<Rightarrow> [(c, mNextCaptureTime s)])"
    by (simp add: owed_def split: option.splits)
  then show "published (trace_of env s)
     = (case mNextCapturedBuffer s of None \<Rightarrow> [] | Some c \<Rightarrow> [(c, mNextCaptureTime s)])"
    unfolding eq by (simp add: published_append pacing_published)
  show "slept (trace_of env s) = slept ?p"
    unfolding eq by (simp add: slept_append signal_readout_slept render_slept)
  have "vsync_first (rs_trace ?st0)"
    by (simp add: vsync_first_def)
  then have "vsync_first (rs_trace ?st2)"
    by (intro signal_readout_vsync_first render_vsync_first)
  then show "vsync_first (trace_of env s)"
    unfolding eq by (rule vsync_first_append) (rule pacing_no_vsync)
qed

section \<open>Signed 64-bit arithmetic without overflow\<close>

lemma signed_take_bit_63:
  assumes "- 9223372036854775808 \<le> k" and "k < 9223372036854775808"
  shows "signed_take_bit 63 k = (k::int)"
  using assms by (intro signed_take_bit_int_eq_self) simp_all

lemma sint_add_64:
  fixes a b :: "64 word"
  assumes "- 9223372036854775808 \<le> sint a + sint b" and "sint a + sint b < 9223372036854775808"
  shows "sint (a + b) = sint a + sint b"
  using signed_take_bit_63 [OF assms] by (simp add: sint_word_ariths)

lemma sint_sub_64:
  fixes a b :: "64 word"
  assumes "- 9223372036854775808 \<le> sint a - sint b" and "sint a - sint b < 9223372036854775808"
  shows "sint (a - b) = sint a - sint b"
  using signed_take_bit_63 [OF assms] by (simp add: sint_word_ariths)

lemma sint_eq_uint_64:
  fixes a :: "64 word"
  assumes "uint a < 9223372036854775808"
  shows "sint a = uint a"
proof -
  have "0 \<le> uint a" by simp
  then have "- 9223372036854775808 \<le> uint a" by linarith
  from signed_take_bit_63 [OF this assms] show ?thesis
    by (simp add: sint_uint)
qed

lemma sint_word_of_int_64:
  assumes "- 9223372036854775808 \<le> k" and "k < 9223372036854775808"
  shows "sint (word_of_int k :: 64 word) = k"
  using signed_take_bit_63 [OF assms] by (simp add: sint_sbintrunc')

lemma sint_range_64:
  fixes a :: "64 word"
  shows "- 9223372036854775808 \<le> sint a" and "sint a < 9223372036854775808"
  using sint_ge [of a] sint_lt [of a] by simp_all

lemma frameEnd_sint:
  fixes start fd :: "64 word"
  assumes "0 \<le> sint start" and "sint start + uint fd < 9223372036854775808"
  shows "sint (start + fd) = sint start + uint fd"
proof -
  have nn: "0 \<le> uint fd" by simp
  then have "uint fd < 9223372036854775808" using assms by linarith
  then have fd: "sint fd = uint fd" by (rule sint_eq_uint_64)
  have "- 9223372036854775808 \<le> sint start + sint fd" "sint start + sint fd < 9223372036854775808"
    using assms nn unfolding fd by linarith+
  then have "sint (start + fd) = sint start + sint fd"
    by (rule sint_add_64)
  then show ?thesis
    by (simp add: fd)
qed

lemma pacing_slept:
  assumes start: "0 \<le> sint start" and wd: "0 \<le> sint (systemTime_workDone env)"
    and fits: "sint start + uint fd < 9223372036854775808"
  shows "slept (pacing env (start + fd)) =
     (if sint (systemTime_workDone env) < sint start + uint fd - 2000000
      then [(word_of_int ((sint start + uint fd - sint (systemTime_workDone env)) div 1000000000),
             word_of_int ((sint start + uint fd - sint (systemTime_workDone env)) mod 1000000000))]
           @ nanosleep_remaining env
      else [])"
proof -
  let ?W = "sint (systemTime_workDone env)"
  let ?E = "sint start + uint fd"
  have fe: "sint (start + fd) = ?E"
    using start fits by (rule frameEnd_sint)
  have "0 \<le> uint fd" by simp
  then have lo: "0 \<le> ?E" using start by linarith
  have acc: "sint (2000000 :: 64 word) = 2000000" by simp
  have "- 9223372036854775808 \<le> sint (start + fd) - sint (2000000 :: 64 word)"
    "sint (start + fd) - sint (2000000 :: 64 word) < 9223372036854775808"
    using lo fits unfolding fe acc by linarith+
  then have "sint (start + fd - 2000000) = sint (start + fd) - sint (2000000 :: 64 word)"
    by (rule sint_sub_64)
  then have thr: "sint (start + fd - 2000000) = ?E - 2000000"
    by (simp only: fe acc)
  have cond: "(systemTime_workDone env <s start + fd - 2000000) = (?W < ?E - 2000000)"
    by (simp add: word_sless_alt thr)
  have "- 9223372036854775808 \<le> sint (start + fd) - ?W" "sint (start + fd) - ?W < 9223372036854775808"
    using lo fits wd sint_range_64 [of "systemTime_workDone env"] unfolding fe by linarith+
  then have "sint (start + fd - systemTime_workDone env) = sint (start + fd) - ?W"
    by (rule sint_sub_64)
  then have diff: "sint (start + fd - systemTime_workDone env) = ?E - ?W"
    by (simp only: fe)
  show ?thesis
  proof (cases "?W < ?E - 2000000")
    case True
    then have pos: "0 < ?E - ?W" by linarith
    have sd: "(?E - ?W) sdiv 1000000000 = (?E - ?W) div 1000000000"
      using pos by (simp add: signed_divide_int_def)
    have sm: "(?E - ?W) smod 1000000000 = (?E - ?W) mod 1000000000"
      using pos by (simp add: signed_modulo_int_def)
    show ?thesis
      using True cond by (simp add: pacing_def Let_def diff sd sm nanosleep_loop_slept)
  next
    case False
    then show ?thesis
      using cond by (simp add: pacing_def Let_def)
  qed
qed

lemma kRowReadoutTime_eq: "kRowReadoutTime = 69441"
  by (simp add: kRowReadoutTime_def kFrameDurationRange0_def kResolutionY_def signed_divide_int_def)

lemma frame_period_eq: "kRowReadoutTime * of_nat kResolutionY + kMinVerticalBlank = 33341680"
  by (simp add: kRowReadoutTime_eq kResolutionY_def kMinVerticalBlank_def)

lemma threadLoop_returns: "fst (threadLoop env s) = True"
  by (simp add: threadLoop_def Let_def)

section \<open>Vertical sync\<close>

text \<open>
  C9. Every call of \<open>threadLoop\<close> returns \<open>true\<close> and leaves \<open>mGotVSync\<close> set; the
  vertical sync is the first event of the iteration and occurs once, so every row written
  comes after it; and the rows written are the 480 rows of the buffer latched, or none
  when no destination buffer was set: the render stage is skipped, the signal is not.
\<close>

theorem vsync_every_iteration:
  "fst (threadLoop env s)
   \<and> mGotVSync (sensor_after env s)
   \<and> (\<exists>rest. trace_of env s = VSyncSignal # rest \<and> VSyncSignal \<notin> set rest)
   \<and> written (trace_of env s)
       = (case mNextBuffer s of None \<Rightarrow> [] | Some b \<Rightarrow> replicate kResolutionY b)"
  using threadLoop_trace_parts(4) [of env s]
  by (simp add: threadLoop_returns threadLoop_sensor threadLoop_trace_parts(1) vsync_first_def)

section \<open>Pipeline delay\<close>

text \<open>
  C5. A buffer \<open>b\<close> latched by an iteration is the destination of every row that iteration
  writes; what that iteration publishes is the buffer latched before it (if any); and the
  next iteration, whatever the other threads did to the control parameters and the handoff
  slot in between, publishes exactly \<open>b\<close>, with the capture time assigned when it was
  latched.
\<close>

theorem pipeline_delay:
  assumes "mNextBuffer s = Some b"
    and "mNextCapturedBuffer s' = mNextCapturedBuffer (sensor_after env s)"
    and "mNextCaptureTime s' = mNextCaptureTime (sensor_after env s)"
  shows "written (trace_of env s) = replicate kResolutionY b
       \<and> published (trace_of env s)
           = (case mNextCapturedBuffer s of None \<Rightarrow> [] | Some c \<Rightarrow> [(c, mNextCaptureTime s)])
       \<and> published (trace_of env' s') = [(b, mNextCaptureTime (sensor_after env s))]"
proof -
  have "mNextCapturedBuffer (sensor_after env s) = Some b"
    using assms(1) by (simp add: threadLoop_sensor)
  then have "mNextCapturedBuffer s' = Some b"
    using assms(2) by simp
  then have "published (trace_of env' s') = [(b, mNextCaptureTime s')]"
    by (simp add: threadLoop_trace_parts(2))
  then show ?thesis
    using assms(1,3) by (simp add: threadLoop_trace_parts(1,2))
qed

theorem pipeline_delay_witness:
  "mNextBuffer (setDestinationBuffer (Some 7) 640 example_sensor) = Some 7
   \<and> written (trace_of (example_env 0 0) (setDestinationBuffer (Some 7) 640 example_sensor))
       = replicate kResolutionY 7
   \<and> published (trace_of (example_env 0 0) (setDestinationBuffer (Some 7) 640 example_sensor)) = []
   \<and> published (trace_of (example_env 33331760 33331760)
         (sensor_after (example_env 0 0) (setDestinationBuffer (Some 7) 640 example_sensor)))
       = [(7, 79441)]"
proof -
  let ?s = "setDestinationBuffer (Some 7) 640 example_sensor"
  have a: "mNextBuffer ?s = Some 7"
    by (simp add: setDestinationBuffer_def)
  have b: "mNextCapturedBuffer ?s = None"
    by (simp add: setDestinationBuffer_def example_sensor_def startUp_def readyToRun_def)
  have c: "mNextCaptureTime (sensor_after (example_env 0 0) ?s) = 79441"
    by (simp add: threadLoop_sensor example_env_def setDestinationBuffer_def example_sensor_def
        startUp_def readyToRun_def kRowReadoutTime_eq kMinVerticalBlank_def)
  show ?thesis
    using pipeline_delay [OF a refl refl, of "example_env 0 0" "example_env 33331760 33331760"]
    by (simp add: a b c)
qed

section \<open>The handoff slot\<close>

lemma waitForNewFrame_full:
  "mCapturedBuffer s = Some b \<Longrightarrow>
   waitForNewFrame w reltime s = ((True, Some (mCaptureTime s)), s\<lparr>mCapturedBuffer := None\<rparr>)"
  by (simp add: waitForNewFrame_def)

lemma waitForNewFrame_clears:
  "fst (fst (waitForNewFrame w reltime s)) \<Longrightarrow> mCapturedBuffer (snd (waitForNewFrame w reltime s)) = None"
  by (auto simp add: waitForNewFrame_def Let_def split: if_splits prod.splits)

text \<open>
  C6. The slot is the single pair \<open>mCapturedBuffer\<close>, \<open>mCaptureTime\<close>. When two iterations
  complete a frame each and \<open>waitForNewFrame\<close> is not called in between, the slot holds the
  second frame only; \<open>waitForNewFrame\<close> then delivers the capture time of the second frame
  and empties the slot, and a further call whose wait times out delivers nothing: the first
  frame is lost. Every successful \<open>waitForNewFrame\<close> leaves the slot empty.
\<close>

theorem handoff_overwrite:
  assumes "mNextCapturedBuffer s = Some b1" and "mNextBuffer s = Some b2"
  shows "mCapturedBuffer (sensor_after env1 s) = Some b1
       \<and> mCaptureTime (sensor_after env1 s) = mNextCaptureTime s
       \<and> mCapturedBuffer (sensor_after env2 (sensor_after env1 s)) = Some b2
       \<and> mCaptureTime (sensor_after env2 (sensor_after env1 s))
           = mNextCaptureTime (sensor_after env1 s)
       \<and> waitForNewFrame w reltime (sensor_after env2 (sensor_after env1 s))
           = ((True, Some (mNextCaptureTime (sensor_after env1 s))),
              (sensor_after env2 (sensor_after env1 s))\<lparr>mCapturedBuffer := None\<rparr>)
       \<and> fst (waitForNewFrame (\<lambda>t. (TIMED_OUT, \<lambda>x. x)) reltime'
                (snd (waitForNewFrame w reltime (sensor_after env2 (sensor_after env1 s)))))
           = (False, None)
       \<and> (\<forall>w0 t0 s0. fst (fst (waitForNewFrame w0 t0 s0))
             \<longrightarrow> mCapturedBuffer (snd (waitForNewFrame w0 t0 s0)) = None)"
proof -
  let ?s1 = "sensor_after env1 s"
  let ?s2 = "sensor_after env2 ?s1"
  have s1: "mCapturedBuffer ?s1 = Some b1" "mCaptureTime ?s1 = mNextCaptureTime s"
    "mNextCapturedBuffer ?s1 = Some b2"
    using assms by (simp_all add: threadLoop_sensor)
  have s2: "mCapturedBuffer ?s2 = Some b2" "mCaptureTime ?s2 = mNextCaptureTime ?s1"
    using s1(3) by (simp_all add: threadLoop_sensor [of env2 ?s1])
  have w: "waitForNewFrame w reltime ?s2
           = ((True, Some (mNextCaptureTime ?s1)), ?s2\<lparr>mCapturedBuffer := None\<rparr>)"
    using waitForNewFrame_full [OF s2(1)] s2(2) by simp
  have w2: "fst (waitForNewFrame (\<lambda>t. (TIMED_OUT, \<lambda>x. x)) reltime'
                (snd (waitForNewFrame w reltime ?s2))) = (False, None)"
    unfolding w by (simp add: waitForNewFrame_def)
  show ?thesis
    using s1(1,2) s2 w w2 waitForNewFrame_clears by blast
qed

theorem handoff_overwrite_witness:
  "mNextCapturedBuffer (example_sensor\<lparr>mNextCapturedBuffer := Some 5, mNextBuffer := Some 6\<rparr>) = Some 5
   \<and> mNextBuffer (example_sensor\<lparr>mNextCapturedBuffer := Some 5, mNextBuffer := Some 6\<rparr>) = Some 6
   \<and> mCapturedBuffer (sensor_after (example_env 0 0)
        (example_sensor\<lparr>mNextCapturedBuffer := Some 5, mNextBuffer := Some 6\<rparr>)) = Some 5
   \<and> mCapturedBuffer (sensor_after (example_env 33331760 33331760) (sensor_after (example_env 0 0)
        (example_sensor\<lparr>mNextCapturedBuffer := Some 5, mNextBuffer := Some 6\<rparr>))) = Some 6
   \<and> fst (waitForNewFrame (\<lambda>t. (TIMED_OUT, \<lambda>x. x)) 1000000
        (sensor_after (example_env 33331760 33331760) (sensor_after (example_env 0 0)
        (example_sensor\<lparr>mNextCapturedBuffer := Some 5, mNextBuffer := Some 6\<rparr>))))
       = (True, Some 79441)"
proof -
  let ?s = "example_sensor\<lparr>mNextCapturedBuffer := Some 5, mNextBuffer := Some 6\<rparr>"
  have a: "mNextCapturedBuffer ?s = Some 5" and b: "mNextBuffer ?s = Some 6"
    by simp_all
  have c: "mNextCaptureTime (sensor_after (example_env 0 0) ?s) = 79441"
    by (simp add: threadLoop_sensor example_env_def example_sensor_def
        startUp_def readyToRun_def kRowReadoutTime_eq kMinVerticalBlank_def)
  show ?thesis
    using handoff_overwrite [OF a b, of "example_env 0 0" "example_env 33331760 33331760"
        "\<lambda>t. (TIMED_OUT, \<lambda>x. x)" 1000000 1000000]
    by (simp add: c)
qed

section \<open>Results of the two waits\<close>

text \<open>
  C7 (as the code has it). \<open>waitForVSync\<close> returns \<open>false\<close> when the wait fails with an
  error; when the wait returns \<open>OK\<close> or \<open>TIMED_OUT\<close> it returns \<open>mGotVSync\<close>, which it
  cleared before the wait: \<open>true\<close> exactly when the capture loop signalled a vertical sync
  while it waited. \<open>waitForNewFrame\<close>, when the slot is empty at entry, returns \<open>false\<close>
  without a timestamp whenever the wait times out or fails; when it returns \<open>true\<close> the slot
  held a frame, the timestamp written is the capture time of that frame, and the slot is
  emptied; when it returns \<open>false\<close> no timestamp is written.
\<close>

theorem wait_results:
  "(\<forall>e. fst (w reltime) = FAILED e \<longrightarrow> fst (waitForVSync w reltime s) = False)
   \<and> (fst (w reltime) = OK \<or> fst (w reltime) = TIMED_OUT
        \<longrightarrow> fst (waitForVSync w reltime s)
            = mGotVSync (snd (w reltime) (s\<lparr>mGotVSync := False\<rparr>)))
   \<and> (mCapturedBuffer s = None \<and> fst (w reltime) \<noteq> OK
        \<longrightarrow> fst (waitForNewFrame w reltime s) = (False, None))
   \<and> (fst (fst (waitForNewFrame w reltime s))
        \<longrightarrow> (\<exists>s1. (s1 = s \<or> s1 = snd (w reltime) s)
                 \<and> mCapturedBuffer s1 \<noteq> None
                 \<and> snd (fst (waitForNewFrame w reltime s)) = Some (mCaptureTime s1)
                 \<and> snd (waitForNewFrame w reltime s) = s1\<lparr>mCapturedBuffer := None\<rparr>))
   \<and> (\<not> fst (fst (waitForNewFrame w reltime s))
        \<longrightarrow> snd (fst (waitForNewFrame w reltime s)) = None)"
proof -
  obtain res others where wr: "w reltime = (res, others)"
    by (cases "w reltime")
  show ?thesis
    unfolding waitForVSync_def waitForNewFrame_def Let_def wr
    by (cases res) auto
qed

theorem wait_results_witness:
  "fst ((\<lambda>t. (FAILED (- 22), \<lambda>x. x)) (1000000 :: nsecs_t)) = FAILED (- 22)
   \<and> fst (waitForVSync (\<lambda>t. (FAILED (- 22), \<lambda>x. x)) 1000000 example_sensor) = False
   \<and> mCapturedBuffer example_sensor = None
   \<and> fst (waitForNewFrame (\<lambda>t. (FAILED (- 22), \<lambda>x. x)) 1000000 example_sensor) = (False, None)"
proof -
  have a: "mCapturedBuffer example_sensor = None"
    by (simp add: example_sensor_def startUp_def readyToRun_def)
  show ?thesis
    using wait_results [of "\<lambda>t. (FAILED (- 22), \<lambda>x. x)" 1000000 example_sensor]
    by (simp add: a)
qed

text \<open>
  C7 as the claim words it fails for \<open>waitForVSync\<close>: when the wait times out while the
  capture loop, holding the control mutex, signals the vertical sync, the status is
  \<open>TIMED_OUT\<close> and the result is \<open>true\<close>.
\<close>

theorem wait_results_counterexample:
  "fst (waitForVSync (\<lambda>reltime. (TIMED_OUT, latch)) 1000000 example_sensor) = True"
  by (simp add: waitForVSync_def latch_def)

section \<open>Pacing\<close>

text \<open>
  C8. With clock readings that are not negative and a deadline (iteration start plus frame
  duration) that fits the signed 64-bit nanosecond count, \<open>nanosleep\<close> is called if and only
  if the work was done earlier than the deadline minus 2 ms; the time asked of the first call
  is the time left to the deadline, in seconds and nanoseconds; and when the work is done at
  or after the deadline there is no sleep.
\<close>

theorem pacing_sleep:
  assumes "0 \<le> sint (systemTime_start env)" and "0 \<le> sint (systemTime_workDone env)"
    and "sint (systemTime_start env) + uint (mFrameDuration s) < 2 ^ 63"
  shows "((slept (trace_of env s) \<noteq> [])
            = (sint (systemTime_workDone env)
                 < sint (systemTime_start env) + uint (mFrameDuration s) - 2000000))
       \<and> (sint (systemTime_workDone env)
             < sint (systemTime_start env) + uint (mFrameDuration s) - 2000000
           \<longrightarrow> (\<exists>sec nsec. slept (trace_of env s) = (sec, nsec) # nanosleep_remaining env
                  \<and> 0 \<le> sint nsec \<and> sint nsec < 1000000000
                  \<and> sint (systemTime_workDone env) + (sint sec * 1000000000 + sint nsec)
                      = sint (systemTime_start env) + uint (mFrameDuration s)))
       \<and> (sint (systemTime_start env) + uint (mFrameDuration s) \<le> sint (systemTime_workDone env)
           \<longrightarrow> slept (trace_of env s) = [])"
proof -
  let ?W = "sint (systemTime_workDone env)"
  let ?E = "sint (systemTime_start env) + uint (mFrameDuration s)"
  have fits: "?E < 9223372036854775808"
    using assms(3) by simp
  note sl = threadLoop_trace_parts(3) [of env s] pacing_slept [OF assms(1,2) fits]
  have a: "(slept (trace_of env s) \<noteq> []) = (?W < ?E - 2000000)"
    by (simp add: sl)
  have c: "?E \<le> ?W \<longrightarrow> slept (trace_of env s) = []"
    by (simp add: sl)
  have b: "?W < ?E - 2000000
           \<longrightarrow> (\<exists>sec nsec. slept (trace_of env s) = (sec, nsec) # nanosleep_remaining env
                  \<and> 0 \<le> sint nsec \<and> sint nsec < 1000000000
                  \<and> ?W + (sint sec * 1000000000 + sint nsec) = ?E)"
  proof
    assume lt: "?W < ?E - 2000000"
    let ?d = "?E - ?W"
    have pos: "0 < ?d" using lt by linarith
    have up: "?d < 9223372036854775808" using assms(2) fits by linarith
    have q: "0 \<le> ?d div 1000000000" "?d div 1000000000 \<le> ?d"
      using pos by (simp_all add: pos_imp_zdiv_nonneg_iff int_div_le_self)
    have r: "0 \<le> ?d mod 1000000000" "?d mod 1000000000 < 1000000000"
      by simp_all
    have "- 9223372036854775808 \<le> ?d div 1000000000" "?d div 1000000000 < 9223372036854775808"
      using q up by linarith+
    then have s1: "sint (word_of_int (?d div 1000000000) :: 64 word) = ?d div 1000000000"
      by (rule sint_word_of_int_64)
    have "- 9223372036854775808 \<le> ?d mod 1000000000" "?d mod 1000000000 < 9223372036854775808"
      using r by linarith+
    then have s2: "sint (word_of_int (?d mod 1000000000) :: 64 word) = ?d mod 1000000000"
      by (rule sint_word_of_int_64)
    have sl': "slept (trace_of env s)
          = (word_of_int (?d div 1000000000), word_of_int (?d mod 1000000000))
            # nanosleep_remaining env"
      using lt by (simp add: sl)
    have sum: "?W + (?d div 1000000000 * 1000000000 + ?d mod 1000000000) = ?E"
      by simp
    show "\<exists>sec nsec. slept (trace_of env s) = (sec, nsec) # nanosleep_remaining env
                  \<and> 0 \<le> sint nsec \<and> sint nsec < 1000000000
                  \<and> ?W + (sint sec * 1000000000 + sint nsec) = ?E"
    proof (intro exI conjI)
      show "slept (trace_of env s)
          = (word_of_int (?d div 1000000000), word_of_int (?d mod 1000000000))
            # nanosleep_remaining env" by (rule sl')
      show "0 \<le> sint (word_of_int (?d mod 1000000000) :: 64 word)"
        unfolding s2 by (rule r)
      show "sint (word_of_int (?d mod 1000000000) :: 64 word) < 1000000000"
        unfolding s2 by (rule r)
      show "?W + (sint (word_of_int (?d div 1000000000) :: 64 word) * 1000000000
                  + sint (word_of_int (?d mod 1000000000) :: 64 word)) = ?E"
        unfolding s1 s2 by (rule sum)
    qed
  qed
  from a b c show ?thesis by blast
qed

theorem pacing_sleep_witness:
  "0 \<le> sint (systemTime_start (example_env 0 1000000))
   \<and> 0 \<le> sint (systemTime_workDone (example_env 0 1000000))
   \<and> sint (systemTime_start (example_env 0 1000000)) + uint (mFrameDuration example_sensor) < 2 ^ 63
   \<and> slept (trace_of (example_env 0 1000000) example_sensor) \<noteq> []
   \<and> slept (trace_of (example_env 0 40000000) example_sensor) = []"
proof -
  have fd: "mFrameDuration example_sensor = 33331760"
    by (simp add: example_sensor_def startUp_def readyToRun_def Sensor_new_def
        kFrameDurationRange0_def)
  have e: "systemTime_start (example_env 0 t) = 0" "systemTime_workDone (example_env 0 t) = t" for t
    by (simp_all add: example_env_def)
  show ?thesis
    using pacing_sleep [of "example_env 0 1000000" example_sensor]
      pacing_sleep [of "example_env 0 40000000" example_sensor]
    by (simp add: fd e)
qed

section \<open>The simulated timeline\<close>

lemma capture_offset_sint: "sint (kRowReadoutTime + kMinVerticalBlank) = 79441"
  by (simp add: kRowReadoutTime_eq kMinVerticalBlank_def)

lemma capture_time_sint:
  assumes "0 \<le> sint startup" and "sint startup \<le> sint start" and "sint start < 4611686018427387904"
  shows "sint (start - startup + (kRowReadoutTime + kMinVerticalBlank))
         = sint start - sint startup + 79441"
proof -
  have "- 9223372036854775808 \<le> sint start - sint startup"
    "sint start - sint startup < 9223372036854775808"
    using assms by linarith+
  then have d: "sint (start - startup) = sint start - sint startup"
    by (rule sint_sub_64)
  have "- 9223372036854775808 \<le> sint (start - startup) + sint (kRowReadoutTime + kMinVerticalBlank)"
    "sint (start - startup) + sint (kRowReadoutTime + kMinVerticalBlank) < 9223372036854775808"
    using assms unfolding d capture_offset_sint by linarith+
  then have "sint (start - startup + (kRowReadoutTime + kMinVerticalBlank))
             = sint (start - startup) + sint (kRowReadoutTime + kMinVerticalBlank)"
    by (rule sint_add_64)
  then show ?thesis
    by (simp only: d capture_offset_sint)
qed

text \<open>
  C2 (as the code has it). The capture time assigned to the frame latched in an iteration is
  the clock reading at the start of that iteration, less the startup time, plus one row
  readout time and the vertical blank. Between two iterations it advances by exactly the
  real time between their starts, and it does not decrease when the clock does not
  (readings not negative and below \<open>2^62\<close>).
\<close>

theorem capture_time_follows_clock:
  "mNextCaptureTime (sensor_after env s)
     = systemTime_start env - mStartupTime s + (kRowReadoutTime + kMinVerticalBlank)
   \<and> mStartupTime (sensor_after env s) = mStartupTime s
   \<and> (mStartupTime s' = mStartupTime s
        \<longrightarrow> mNextCaptureTime (sensor_after env' s') - mNextCaptureTime (sensor_after env s)
            = systemTime_start env' - systemTime_start env)
   \<and> (mStartupTime s' = mStartupTime s
        \<and> 0 \<le> sint (mStartupTime s)
        \<and> sint (mStartupTime s) \<le> sint (systemTime_start env)
        \<and> sint (systemTime_start env) \<le> sint (systemTime_start env')
        \<and> sint (systemTime_start env') < 2 ^ 62
        \<longrightarrow> mNextCaptureTime (sensor_after env s) \<le>s mNextCaptureTime (sensor_after env' s'))"
proof -
  have a: "mNextCaptureTime (sensor_after env s)
     = systemTime_start env - mStartupTime s + (kRowReadoutTime + kMinVerticalBlank)"
    by (simp add: threadLoop_sensor)
  have b: "mStartupTime (sensor_after env s) = mStartupTime s"
    by (simp add: threadLoop_sensor)
  have c: "mStartupTime s' = mStartupTime s
        \<longrightarrow> mNextCaptureTime (sensor_after env' s') - mNextCaptureTime (sensor_after env s)
            = systemTime_start env' - systemTime_start env"
    by (simp add: threadLoop_sensor)
  have d: "mStartupTime s' = mStartupTime s
        \<and> 0 \<le> sint (mStartupTime s)
        \<and> sint (mStartupTime s) \<le> sint (systemTime_start env)
        \<and> sint (systemTime_start env) \<le> sint (systemTime_start env')
        \<and> sint (systemTime_start env') < 2 ^ 62
        \<longrightarrow> mNextCaptureTime (sensor_after env s) \<le>s mNextCaptureTime (sensor_after env' s')"
  proof
    assume h: "mStartupTime s' = mStartupTime s
        \<and> 0 \<le> sint (mStartupTime s)
        \<and> sint (mStartupTime s) \<le> sint (systemTime_start env)
        \<and> sint (systemTime_start env) \<le> sint (systemTime_start env')
        \<and> sint (systemTime_start env') < 2 ^ 62"
    then have h0: "0 \<le> sint (mStartupTime s)"
      and h1: "sint (mStartupTime s) \<le> sint (systemTime_start env)"
      and h2: "sint (systemTime_start env) \<le> sint (systemTime_start env')"
      and h3: "sint (systemTime_start env') < 4611686018427387904"
      and h4: "mStartupTime s' = mStartupTime s"
      by simp_all
    have t1: "sint (mNextCaptureTime (sensor_after env s))
              = sint (systemTime_start env) - sint (mStartupTime s) + 79441"
      unfolding a using h0 h1 h2 h3 by (intro capture_time_sint) linarith+
    have t2: "sint (mNextCaptureTime (sensor_after env' s'))
              = sint (systemTime_start env') - sint (mStartupTime s) + 79441"
      using h0 h1 h2 h3 by (simp add: threadLoop_sensor h4 capture_time_sint)
    show "mNextCaptureTime (sensor_after env s) \<le>s mNextCaptureTime (sensor_after env' s')"
      using h2 by (simp add: word_sle_eq t1 t2)
  qed
  from a b c d show ?thesis by blast
qed

theorem capture_time_follows_clock_witness:
  "mStartupTime (sensor_after (example_env 0 0) example_sensor) = mStartupTime example_sensor
   \<and> mNextCaptureTime (sensor_after (example_env 33331760 33331760)
                          (sensor_after (example_env 0 0) example_sensor))
       - mNextCaptureTime (sensor_after (example_env 0 0) example_sensor)
       = 33331760
   \<and> mNextCaptureTime (sensor_after (example_env 0 0) example_sensor)
       \<le>s mNextCaptureTime (sensor_after (example_env 33331760 33331760)
                          (sensor_after (example_env 0 0) example_sensor))"
proof -
  let ?e0 = "example_env 0 0" and ?e1 = "example_env 33331760 33331760"
  let ?s1 = "sensor_after ?e0 example_sensor"
  note T = capture_time_follows_clock [of ?e0 example_sensor ?s1 ?e1]
  have st: "mStartupTime example_sensor = 0"
    by (simp add: example_sensor_def startUp_def readyToRun_def)
  have e: "systemTime_start (example_env a b) = a" for a b
    by (simp add: example_env_def)
  from T have b: "mStartupTime ?s1 = mStartupTime example_sensor"
    by blast
  from T b have c: "mNextCaptureTime (sensor_after ?e1 ?s1) - mNextCaptureTime ?s1
                    = systemTime_start ?e1 - systemTime_start ?e0"
    by blast
  have h: "0 \<le> sint (mStartupTime example_sensor)
        \<and> sint (mStartupTime example_sensor) \<le> sint (systemTime_start ?e0)
        \<and> sint (systemTime_start ?e0) \<le> sint (systemTime_start ?e1)
        \<and> sint (systemTime_start ?e1) < 2 ^ 62"
    by (simp add: st e)
  from T b h have d: "mNextCaptureTime ?s1 \<le>s mNextCaptureTime (sensor_after ?e1 ?s1)"
    by blast
  from b c d show ?thesis
    by (simp add: e)
qed

text \<open>
  C2 as the claim words it fails: with one second between the starts of two iterations the
  capture time advances by one second, not by the frame period
  \<open>kRowReadoutTime * 480 + kMinVerticalBlank = 33341680\<close>.
\<close>

theorem capture_time_counterexample:
  "mNextCaptureTime (sensor_after (example_env 1000000000 1000000000)
                        (sensor_after (example_env 0 0) example_sensor))
     - mNextCaptureTime (sensor_after (example_env 0 0) example_sensor)
   \<noteq> kRowReadoutTime * of_nat kResolutionY + kMinVerticalBlank"
  by (simp add: threadLoop_sensor example_env_def frame_period_eq)

section \<open>Accuracy of the approximate square root\<close>

text \<open>
  The pattern of a positive float is \<open>E * 2^23 + M\<close>; halving it and adding the modifier
  gives again a positive pattern, whose fields depend on the parity of \<open>E\<close> and on whether
  the halved mantissa reaches \<open>0x4C000\<close>. In each of the three cases the square of the result
  lies between \<open>0.964\<^sup>2\<close> and \<open>1.036\<^sup>2\<close> times the argument: a quadratic inequality in the
  halved mantissa, bounded from above by a chord and from below by a tangent.
\<close>

lemma signed_take_bit_31:
  assumes "- 2147483648 \<le> k" and "k < 2147483648"
  shows "signed_take_bit 31 k = (k::int)"
  using assms by (intro signed_take_bit_int_eq_self) simp_all

lemma take_bit_32:
  assumes "0 \<le> k" and "k < 4294967296"
  shows "take_bit 32 k = (k::int)"
  using assms by (intro take_bit_int_eq_self) simp_all

lemma positive_pattern:
  assumes "\<not> float_sign r"
  shows "uint r = float_exp r * 8388608 + float_man r"
    and "0 \<le> float_man r" and "float_man r < 8388608"
proof -
  have lt: "uint r < 2147483648"
    using assms by (simp add: float_sign_def)
  have "0 \<le> uint r" by simp
  then have "uint r div 8388608 < 256" "0 \<le> uint r div 8388608"
    using lt by arith+
  then have "(uint r div 8388608) mod 256 = uint r div 8388608"
    by simp
  then show "uint r = float_exp r * 8388608 + float_man r"
    by (simp add: float_exp_def float_man_def)
  show "0 \<le> float_man r" "float_man r < 8388608"
    by (simp_all add: float_man_def)
qed

lemma sqrtf_approx_uint:
  assumes "\<not> float_sign r"
  shows "uint (sqrtf_approx r) = uint r div 2 + 532365312"
proof -
  have lt: "uint r < 2147483648"
    using assms by (simp add: float_sign_def)
  have nn: "0 \<le> uint r" by simp
  have "sint r = signed_take_bit 31 (uint r)"
    by (simp add: sint_uint)
  also have "\<dots> = uint r"
    using nn lt by (intro signed_take_bit_31) linarith+
  finally have sr: "sint r = uint r" .
  have sh: "sint (signed_drop_bit 1 r) = uint r div 2"
    by (simp add: sint_signed_drop_bit_eq sr drop_bit_eq_div)
  have m: "sint modifier = 532365312"
    by (simp add: modifier_def)
  have h: "0 \<le> uint r div 2" "uint r div 2 < 1073741824"
    using lt nn by arith+
  have "sint (signed_drop_bit 1 r + modifier)
        = signed_take_bit 31 (sint (signed_drop_bit 1 r) + sint modifier)"
    by (simp add: sint_word_ariths)
  also have "\<dots> = uint r div 2 + 532365312"
    unfolding sh m
    using h by (intro signed_take_bit_31) linarith+
  finally have s: "sint (sqrtf_approx r) = uint r div 2 + 532365312"
    by (simp add: sqrtf_approx_def)
  have "uint (sqrtf_approx r) = take_bit 32 (sint (sqrtf_approx r))"
    by (simp add: uint_sint)
  also have "\<dots> = uint r div 2 + 532365312"
    unfolding s
    using h by (intro take_bit_32) linarith+
  finally show ?thesis .
qed

lemma chord:
  fixes n :: int
  assumes "L \<le> n" and "n \<le> H"
  shows "n * n \<le> (L + H) * n - L * H"
proof -
  have "0 \<le> (n - L) * (H - n)"
    using assms by (intro mult_nonneg_nonneg) linarith+
  then show ?thesis
    by (simp add: algebra_simps)
qed

lemma tangent:
  fixes n c :: int
  shows "2 * c * n - c * c \<le> n * n"
proof -
  have "0 \<le> (n - c) * (n - c)"
    by simp
  then show ?thesis
    by (simp add: algebra_simps)
qed

lemma square_shift:
  fixes n A :: int
  shows "(A + n)\<^sup>2 = n * n + 2 * A * n + A * A"
  by (simp add: power2_eq_square algebra_simps)

lemma ineq_B1:
  fixes n M :: int
  assumes "311296 \<le> n" and "n \<le> 4194303" and "2 * n \<le> M" and "M \<le> 2 * n + 1"
  shows "929296 * 8388608 * 2 ^ 0 * (8388608 + M) \<le> 1000000 * (8388608 + (n - 311296))\<^sup>2"
    and "1000000 * (8388608 + (n - 311296))\<^sup>2 \<le> 1073296 * 8388608 * 2 ^ 0 * (8388608 + M)"
proof -
  have sq: "(8388608 + (n - 311296))\<^sup>2 = n * n + 2 * 8077312 * n + 8077312 * 8077312"
    using square_shift [of 8077312 n] by simp
  show "929296 * 8388608 * 2 ^ 0 * (8388608 + M) \<le> 1000000 * (8388608 + (n - 311296))\<^sup>2"
    unfolding sq using tangent [of 311296 n] assms by simp
  show "1000000 * (8388608 + (n - 311296))\<^sup>2 \<le> 1073296 * 8388608 * 2 ^ 0 * (8388608 + M)"
    unfolding sq using chord [of 311296 n 4194303] assms by simp
qed

lemma ineq_B2:
  fixes n M :: int
  assumes "0 \<le> n" and "n \<le> 311295" and "2 * n \<le> M" and "M \<le> 2 * n + 1"
  shows "929296 * 8388608 * 2 ^ 2 * (8388608 + M) \<le> 1000000 * (8388608 + (8388608 + n - 311296))\<^sup>2"
    and "1000000 * (8388608 + (8388608 + n - 311296))\<^sup>2 \<le> 1073296 * 8388608 * 2 ^ 2 * (8388608 + M)"
proof -
  have sq: "(8388608 + (8388608 + n - 311296))\<^sup>2 = n * n + 2 * 16465920 * n + 16465920 * 16465920"
    using square_shift [of 16465920 n] by simp
  show "929296 * 8388608 * 2 ^ 2 * (8388608 + M) \<le> 1000000 * (8388608 + (8388608 + n - 311296))\<^sup>2"
    unfolding sq using tangent [of 311296 n] assms by simp
  show "1000000 * (8388608 + (8388608 + n - 311296))\<^sup>2 \<le> 1073296 * 8388608 * 2 ^ 2 * (8388608 + M)"
    unfolding sq using chord [of 0 n 311295] assms by simp
qed

lemma ineq_A:
  fixes n M :: int
  assumes "0 \<le> n" and "n \<le> 4194303" and "2 * n \<le> M" and "M \<le> 2 * n + 1"
  shows "929296 * 8388608 * 2 ^ 1 * (8388608 + M) \<le> 1000000 * (8388608 + (3883008 + n))\<^sup>2"
    and "1000000 * (8388608 + (3883008 + n))\<^sup>2 \<le> 1073296 * 8388608 * 2 ^ 1 * (8388608 + M)"
proof -
  have sq: "(8388608 + (3883008 + n))\<^sup>2 = n * n + 2 * 12271616 * n + 12271616 * 12271616"
    using square_shift [of 12271616 n] by simp
  show "929296 * 8388608 * 2 ^ 1 * (8388608 + M) \<le> 1000000 * (8388608 + (3883008 + n))\<^sup>2"
    unfolding sq using tangent [of 3319363 n] assms by simp
  show "1000000 * (8388608 + (3883008 + n))\<^sup>2 \<le> 1073296 * 8388608 * 2 ^ 1 * (8388608 + M)"
    unfolding sq using chord [of 0 n 4194303] assms by simp
qed

lemma of_rat_powi: "real_of_rat (2 powi k) = 2 powi k"
  by (simp add: power_int_def of_rat_power of_rat_inverse of_rat_divide)

lemma float_val_normal:
  assumes "\<not> float_sign r" and "float_exp r \<noteq> 0"
  shows "real_of_rat (float_val r)
         = (1 + of_int (float_man r) / 2 ^ 23) * 2 powi (float_exp r - 127)"
  using assms
  by (simp add: float_val_def of_rat_mult of_rat_add of_rat_divide of_rat_powi of_rat_power)

lemma sqrt_bounds:
  fixes x y :: real
  assumes x: "0 < x" and y: "0 \<le> y"
    and lo: "929296 / 1000000 * x \<le> y\<^sup>2" and hi: "y\<^sup>2 \<le> 1073296 / 1000000 * x"
  shows "\<bar>y - sqrt x\<bar> / sqrt x \<le> 36 / 1000"
proof -
  have s: "0 < sqrt x" using x by simp
  have "0 \<le> x" using x by simp
  then have sq: "(sqrt x)\<^sup>2 = x" by (rule real_sqrt_pow2)
  have "(964 / 1000 * sqrt x)\<^sup>2 = 929296 / 1000000 * x"
    by (simp add: power_mult_distrib sq power_divide)
  then have "(964 / 1000 * sqrt x)\<^sup>2 \<le> y\<^sup>2"
    using lo by simp
  then have l: "964 / 1000 * sqrt x \<le> y"
    using y by (rule power2_le_imp_le)
  have "(1036 / 1000 * sqrt x)\<^sup>2 = 1073296 / 1000000 * x"
    by (simp add: power_mult_distrib sq power_divide)
  then have "y\<^sup>2 \<le> (1036 / 1000 * sqrt x)\<^sup>2"
    using hi by simp
  moreover have "0 \<le> 1036 / 1000 * sqrt x"
    using s by simp
  ultimately have h: "y \<le> 1036 / 1000 * sqrt x"
    by (rule power2_le_imp_le)
  have "\<bar>y - sqrt x\<bar> \<le> 36 / 1000 * sqrt x"
    using l h by linarith
  then show ?thesis
    using s by (simp add: pos_divide_le_eq)
qed

lemma approx_core:
  fixes M M' e e' :: int and j :: nat
  assumes e: "e = 2 * e' + int j"
    and M: "0 \<le> M" and M': "0 \<le> M'"
    and lo: "929296 * 8388608 * 2 ^ j * (8388608 + M) \<le> 1000000 * (8388608 + M')\<^sup>2"
    and hi: "1000000 * (8388608 + M')\<^sup>2 \<le> 1073296 * 8388608 * 2 ^ j * (8388608 + M)"
  shows "\<bar>(1 + of_int M' / 2 ^ 23) * 2 powi e'
          - sqrt ((1 + of_int M / 2 ^ 23) * 2 powi e)\<bar>
         / sqrt ((1 + of_int M / 2 ^ 23) * 2 powi e) \<le> (36 / 1000 :: real)"
proof -
  define P :: real where "P = 2 powi e'"
  define a :: real where "a = 8388608 + of_int M"
  define b :: real where "b = 8388608 + of_int M'"
  define x :: real where "x = (1 + of_int M / 2 ^ 23) * 2 powi e"
  define y :: real where "y = (1 + of_int M' / 2 ^ 23) * 2 powi e'"
  have P: "0 < P" by (simp add: P_def)
  have a: "0 < a" using M by (simp add: a_def)
  have b: "0 < b" using M' by (simp add: b_def)
  have a1: "(2::real) powi (e' + e') = 2 powi e' * 2 powi e'"
    by (rule power_int_add) simp
  have a2: "(2::real) powi ((e' + e') + int j) = 2 powi (e' + e') * 2 powi (int j)"
    by (rule power_int_add) simp
  have "e = (e' + e') + int j"
    using e by simp
  then have pe: "2 powi e = P * P * 2 ^ j"
    by (simp only: a1 a2 P_def power_int_of_nat)
  have xe: "x = a * 2 ^ j * (P * P) / 8388608"
    by (simp add: x_def a_def pe field_simps)
  have ye: "y\<^sup>2 = b * b * (P * P) / (8388608 * 8388608)"
    by (simp add: y_def b_def P_def power2_eq_square field_simps)
  have x0: "0 < x" unfolding xe using a P by simp
  have y0: "0 \<le> y" unfolding y_def using M' by simp
  have "real_of_int (929296 * 8388608 * 2 ^ j * (8388608 + M))
        \<le> real_of_int (1000000 * (8388608 + M')\<^sup>2)"
    using lo by (simp only: of_int_le_iff)
  then have lo': "929296 * 8388608 * 2 ^ j * a \<le> 1000000 * (b * b)"
    by (simp add: a_def b_def power2_eq_square)
  have "real_of_int (1000000 * (8388608 + M')\<^sup>2)
        \<le> real_of_int (1073296 * 8388608 * 2 ^ j * (8388608 + M))"
    using hi by (simp only: of_int_le_iff)
  then have hi': "1000000 * (b * b) \<le> 1073296 * 8388608 * 2 ^ j * a"
    by (simp add: a_def b_def power2_eq_square)
  have k: "0 \<le> P * P / (1000000 * 8388608 * 8388608)"
    using P by simp
  have l: "929296 / 1000000 * x \<le> y\<^sup>2"
    using mult_right_mono [OF lo' k] unfolding xe ye by (simp add: field_simps)
  have h: "y\<^sup>2 \<le> 1073296 / 1000000 * x"
    using mult_right_mono [OF hi' k] unfolding xe ye by (simp add: field_simps)
  show ?thesis
    using sqrt_bounds [OF x0 y0 l h] by (simp add: x_def y_def)
qed

lemma split_fields:
  fixes q r :: int
  assumes "0 \<le> r" and "r < 8388608" and "0 \<le> q" and "q < 256"
  shows "(q * 8388608 + r) div 8388608 mod 256 = q"
    and "(q * 8388608 + r) mod 8388608 = r"
    and "q * 8388608 + r < 2147483648"
proof -
  have eq: "q * 8388608 + r = 8388608 * q + r"
    by simp
  have "(q * 8388608 + r) div 8388608 = q"
    using eq assms(1,2) by (rule int_div_pos_eq)
  then show "(q * 8388608 + r) div 8388608 mod 256 = q"
    using assms(3,4) by simp
  show "(q * 8388608 + r) mod 8388608 = r"
    using eq assms(1,2) by (rule int_mod_pos_eq)
  show "q * 8388608 + r < 2147483648"
    using assms by linarith
qed

lemma half_even:
  fixes k M :: int
  shows "((2 * k) * 8388608 + M) div 2 = k * 8388608 + M div 2"
proof -
  have "(2 * k) * 8388608 + M = M + (k * 8388608) * 2"
    by simp
  then show ?thesis
    by (simp only: div_mult_self1)
qed

lemma half_odd:
  fixes k M :: int
  shows "((2 * k + 1) * 8388608 + M) div 2 = k * 8388608 + 4194304 + M div 2"
proof -
  have "(2 * k + 1) * 8388608 + M = M + (k * 8388608 + 4194304) * 2"
    by (simp add: algebra_simps)
  then show ?thesis
    by (simp only: div_mult_self1)
qed

lemma half_bounds:
  fixes M :: int
  assumes "0 \<le> M" and "M < 8388608"
  shows "0 \<le> M div 2" and "M div 2 \<le> 4194303" and "2 * (M div 2) \<le> M" and "M \<le> 2 * (M div 2) + 1"
  using assms by arith+

lemma decode_even:
  fixes k M :: int
  assumes "0 \<le> M" and "M < 8388608" and "1 \<le> k" and "k \<le> 127"
  shows "(((2 * k) * 8388608 + M) div 2 + 532365312) div 8388608 mod 256 = k + 63"
    and "(((2 * k) * 8388608 + M) div 2 + 532365312) mod 8388608 = 3883008 + M div 2"
    and "((2 * k) * 8388608 + M) div 2 + 532365312 < 2147483648"
proof -
  note h = half_bounds [OF assms(1,2)]
  have eq: "((2 * k) * 8388608 + M) div 2 + 532365312 = (k + 63) * 8388608 + (3883008 + M div 2)"
    unfolding half_even by simp
  have r: "0 \<le> 3883008 + M div 2" "3883008 + M div 2 < 8388608" "0 \<le> k + 63" "k + 63 < 256"
    using h assms by linarith+
  show "(((2 * k) * 8388608 + M) div 2 + 532365312) div 8388608 mod 256 = k + 63"
    and "(((2 * k) * 8388608 + M) div 2 + 532365312) mod 8388608 = 3883008 + M div 2"
    and "((2 * k) * 8388608 + M) div 2 + 532365312 < 2147483648"
    unfolding eq by (rule split_fields [OF r])+
qed

lemma decode_odd_high:
  fixes k M :: int
  assumes "0 \<le> M" and "M < 8388608" and "0 \<le> k" and "k \<le> 126" and "311296 \<le> M div 2"
  shows "(((2 * k + 1) * 8388608 + M) div 2 + 532365312) div 8388608 mod 256 = k + 64"
    and "(((2 * k + 1) * 8388608 + M) div 2 + 532365312) mod 8388608 = M div 2 - 311296"
    and "((2 * k + 1) * 8388608 + M) div 2 + 532365312 < 2147483648"
proof -
  note h = half_bounds [OF assms(1,2)]
  have eq: "((2 * k + 1) * 8388608 + M) div 2 + 532365312
            = (k + 64) * 8388608 + (M div 2 - 311296)"
    unfolding half_odd by simp
  have r: "0 \<le> M div 2 - 311296" "M div 2 - 311296 < 8388608" "0 \<le> k + 64" "k + 64 < 256"
    using h assms by linarith+
  show "(((2 * k + 1) * 8388608 + M) div 2 + 532365312) div 8388608 mod 256 = k + 64"
    and "(((2 * k + 1) * 8388608 + M) div 2 + 532365312) mod 8388608 = M div 2 - 311296"
    and "((2 * k + 1) * 8388608 + M) div 2 + 532365312 < 2147483648"
    unfolding eq by (rule split_fields [OF r])+
qed

lemma decode_odd_low:
  fixes k M :: int
  assumes "0 \<le> M" and "M < 8388608" and "0 \<le> k" and "k \<le> 126" and "M div 2 < 311296"
  shows "(((2 * k + 1) * 8388608 + M) div 2 + 532365312) div 8388608 mod 256 = k + 63"
    and "(((2 * k + 1) * 8388608 + M) div 2 + 532365312) mod 8388608 = 8388608 + M div 2 - 311296"
    and "((2 * k + 1) * 8388608 + M) div 2 + 532365312 < 2147483648"
proof -
  note h = half_bounds [OF assms(1,2)]
  have eq: "((2 * k + 1) * 8388608 + M) div 2 + 532365312
            = (k + 63) * 8388608 + (8388608 + M div 2 - 311296)"
    unfolding half_odd by simp
  have r: "0 \<le> 8388608 + M div 2 - 311296" "8388608 + M div 2 - 311296 < 8388608"
    "0 \<le> k + 63" "k + 63 < 256"
    using h assms by linarith+
  show "(((2 * k + 1) * 8388608 + M) div 2 + 532365312) div 8388608 mod 256 = k + 63"
    and "(((2 * k + 1) * 8388608 + M) div 2 + 532365312) mod 8388608 = 8388608 + M div 2 - 311296"
    and "((2 * k + 1) * 8388608 + M) div 2 + 532365312 < 2147483648"
    unfolding eq by (rule split_fields [OF r])+
qed

lemma result_fields:
  assumes u: "uint w = R"
    and e: "R div 8388608 mod 256 = E'" and m: "R mod 8388608 = M'" and b: "R < 2147483648"
    and E': "E' \<noteq> 0"
  shows "real_of_rat (float_val w) = (1 + of_int M' / 2 ^ 23) * 2 powi (E' - 127)"
proof -
  have s: "\<not> float_sign w"
    using b by (simp add: float_sign_def u)
  have fe: "float_exp w = E'"
    using e by (simp add: float_exp_def u)
  have fm: "float_man w = M'"
    using m by (simp add: float_man_def u)
  show ?thesis
    using float_val_normal [OF s] E' by (simp add: fe fm)
qed

lemma float_val_four: "float_val 0x40800000 = 4"
  by (simp add: float_val_def float_sign_def float_exp_def float_man_def)

text \<open>
  C3. For every positive normalised single-precision float \<open>r\<close> (sign bit clear, exponent
  field from 1 to 254, which includes every argument the render stage passes: the sum of
  noise variances is at least \<open>kReadNoiseVarAfterGain\<close>), the value of the bit pattern that
  \<open>sqrtf_approx\<close> returns differs from the square root of \<open>r\<close> by at most 3.6 percent of it.
\<close>

theorem sqrtf_approx_accuracy:
  assumes s: "\<not> float_sign r" and lo: "1 \<le> float_exp r" and hi: "float_exp r \<le> 254"
  shows "\<bar>real_of_rat (float_val (sqrtf_approx r)) - sqrt (real_of_rat (float_val r))\<bar>
         / sqrt (real_of_rat (float_val r)) \<le> 36 / 1000"
proof -
  define E where "E = float_exp r"
  define M where "M = float_man r"
  define n where "n = M div 2"
  have U: "uint r = E * 8388608 + M" and M: "0 \<le> M" "M < 8388608"
    using positive_pattern [OF s] by (simp_all add: E_def M_def)
  have R: "uint (sqrtf_approx r) = (E * 8388608 + M) div 2 + 532365312"
    using sqrtf_approx_uint [OF s] by (simp add: U)
  have E: "1 \<le> E" "E \<le> 254"
    using lo hi by (simp_all add: E_def)
  have "float_exp r \<noteq> 0"
    using lo by simp
  then have x: "real_of_rat (float_val r) = (1 + of_int M / 2 ^ 23) * 2 powi (E - 127)"
    using float_val_normal [OF s] by (simp add: E_def M_def)
  note h = half_bounds [OF M, folded n_def]
  have "E = 2 * (E div 2) \<or> E = 2 * (E div 2) + 1"
    by presburger
  then consider (even) k where "E = 2 * k" | (odd) k where "E = 2 * k + 1"
    by blast
  then show ?thesis
  proof cases
    case even
    have k: "1 \<le> k" "k \<le> 127"
      using E even by linarith+
    have "k + 63 \<noteq> 0"
      using k by linarith
    then have y: "real_of_rat (float_val (sqrtf_approx r))
                  = (1 + of_int (3883008 + n) / 2 ^ 23) * 2 powi (k + 63 - 127)"
      using R decode_even [OF M k] unfolding even n_def by (intro result_fields)
    have e: "E - 127 = 2 * (k + 63 - 127) + int 1"
      using even by simp
    have M': "0 \<le> 3883008 + n"
      using h by linarith
    show ?thesis
      unfolding x y using e M(1) M' ineq_A [OF h] by (rule approx_core)
  next
    case odd
    have k: "0 \<le> k" "k \<le> 126"
      using E odd by linarith+
    show ?thesis
    proof (cases "311296 \<le> n")
      case True
      then have n: "311296 \<le> M div 2"
        by (simp add: n_def)
      have "k + 64 \<noteq> 0"
        using k by linarith
      then have y: "real_of_rat (float_val (sqrtf_approx r))
                    = (1 + of_int (n - 311296) / 2 ^ 23) * 2 powi (k + 64 - 127)"
        using R decode_odd_high [OF M k n] unfolding odd n_def by (intro result_fields)
      have e: "E - 127 = 2 * (k + 64 - 127) + int 0"
        using odd by simp
      have M': "0 \<le> n - 311296"
        using True by linarith
      show ?thesis
        unfolding x y using e M(1) M' ineq_B1 [OF True h(2,3,4)] by (rule approx_core)
    next
      case False
      then have n: "M div 2 < 311296"
        by (simp add: n_def)
      have n': "n \<le> 311295"
        using False by linarith
      have "k + 63 \<noteq> 0"
        using k by linarith
      then have y: "real_of_rat (float_val (sqrtf_approx r))
                    = (1 + of_int (8388608 + n - 311296) / 2 ^ 23) * 2 powi (k + 63 - 127)"
        using R decode_odd_low [OF M k n] unfolding odd n_def by (intro result_fields)
      have e: "E - 127 = 2 * (k + 63 - 127) + int 2"
        using odd by simp
      have M': "0 \<le> 8388608 + n - 311296"
        using h by linarith
      show ?thesis
        unfolding x y using e M(1) M' ineq_B2 [OF h(1) n' h(3,4)] by (rule approx_core)
    qed
  qed
qed

theorem sqrtf_approx_accuracy_witness:
  "\<not> float_sign 0x40800000 \<and> 1 \<le> float_exp 0x40800000 \<and> float_exp 0x40800000 \<le> 254
   \<and> float_val 0x40800000 = 4
   \<and> sqrtf_approx 0x40800000 = 0x3FFB4000
   \<and> \<bar>real_of_rat (float_val 0x3FFB4000) - sqrt 4\<bar> / sqrt 4 \<le> 36 / 1000"
proof -
  have a: "\<not> float_sign 0x40800000" "1 \<le> float_exp 0x40800000" "float_exp 0x40800000 \<le> 254"
    by (simp_all add: float_sign_def float_exp_def)
  have b: "sqrtf_approx 0x40800000 = 0x3FFB4000"
    by (simp add: sqrtf_approx_def modifier_def)
  show ?thesis
    using a b sqrtf_approx_accuracy [OF a] by (simp add: float_val_four)
qed

end
